theory Spec2Isabelle
  imports Main
begin

section \<open>The type model of the binding generator (generator/genlib/model.py)\<close>

text \<open>
  The module builds one node per schema entry, links the stored type names to the nodes
  of the registry, and derives per member a Swift type, a default value and a conversion.
  The embedding keeps the classes as they are written: every object is its raw
  \<open>data\<close> dictionary plus the attributes its constructor sets.

  Conventions of the embedding.
  \<^item> A raw dictionary is a record with one field per key the module reads. A key read
    with \<open>data.get\<close> is an \<open>option\<close> (or a list, empty when absent, where the module
    only tests it for emptiness); a key read with \<open>data[...]\<close> is a plain field, so the
    model covers dictionaries that have their required keys.
  \<^item> A string is a list of characters, and a character is a code point below 256 (the
    Latin-1 range of Python's \<open>str\<close>). \<open>isdigit\<close>, \<open>isspace\<close> and \<open>lower\<close> are Python's
    \<open>str.isdigit\<close>, \<open>str.isspace\<close> and \<open>str.lower\<close> on that range.
  \<^item> A JSON literal is an integer, a string or a boolean (\<open>jvalue\<close>).
  \<^item> A reference to a \<open>Type\<close> object is the key of that object in the registry
    \<open>Model.types\<close>; a reference to a sibling \<open>Member\<close> is its position in the
    container's member list. \<open>None\<close> is \<open>None\<close>.
  \<^item> An exception is a value \<open>Inl e\<close> of the result type \<open>py_error + 'a\<close>.
  \<^item> The helpers of \<open>nameutils\<close> (\<open>camel_case\<close>, \<open>pascal_case\<close>, \<open>swift_safe\<close>) are
    not part of this module; they are parameters, collected in the record \<open>nameutils\<close>.
  \<^item> The properties that recurse through the member types (\<open>get_swift_value\<close>,
    \<open>default_swift_value\<close>, \<open>has_default_swift_initializer\<close>) take a bound on the depth
    of the recursion and answer \<open>RecursionError\<close> beyond it, as Python does for a schema
    whose structures contain each other.
  \<^item> Properties that only derive names for the templates (\<open>s_type\<close>, \<open>extensible\<close>,
    \<open>chained\<close>, the names of functions and methods, \<open>return_conversion\<close>) are left out.
\<close>

subsection \<open>Python values and errors\<close>

datatype py_error =
    KeyError string
  | IndexError
  | AttributeError
  | TypeError
  | RecursionError

datatype jvalue = JInt int | JStr string | JBool bool

text \<open>Truthiness of a literal read with \<open>data.get\<close>: \<open>None\<close>, \<open>0\<close>, \<open>''\<close> and \<open>False\<close> are falsy.\<close>

fun truthy :: "jvalue option \<Rightarrow> bool" where
  "truthy None = False"
| "truthy (Some (JInt i)) = (i \<noteq> 0)"
| "truthy (Some (JStr s)) = (s \<noteq> [])"
| "truthy (Some (JBool b)) = b"

text \<open>Truthiness of an optional string (\<open>annotation\<close>, \<open>length\<close>, \<open>returns\<close>, a derived default).\<close>

fun truthy_str :: "string option \<Rightarrow> bool" where
  "truthy_str None = False"
| "truthy_str (Some s) = (s \<noteq> [])"

text \<open>\<open>v == 0 or v == '0'\<close>; in Python \<open>False == 0\<close> holds.\<close>

fun is_zero_default :: "jvalue option \<Rightarrow> bool" where
  "is_zero_default None = False"
| "is_zero_default (Some (JInt i)) = (i = 0)"
| "is_zero_default (Some (JStr s)) = (s = ''0'')"
| "is_zero_default (Some (JBool b)) = (\<not> b)"

text \<open>
  \<open>str.isdigit\<close> of a character: true for \<open>0\<close>..\<open>9\<close> and for the superscript digits
  U+00B2, U+00B3 and U+00B9, which are digits but no decimal digits.
\<close>

definition isdigit :: "char \<Rightarrow> bool" where
  "isdigit c =
     (let n = (of_char c :: nat) in (48 \<le> n \<and> n \<le> 57) \<or> n = 178 \<or> n = 179 \<or> n = 185)"

text \<open>The decimal digits \<open>0\<close>..\<open>9\<close> (\<open>str.isdecimal\<close> of a character).\<close>

definition isdecimal :: "char \<Rightarrow> bool" where
  "isdecimal c = (48 \<le> (of_char c :: nat) \<and> (of_char c :: nat) \<le> 57)"

definition startswith :: "string \<Rightarrow> string \<Rightarrow> bool" where
  "startswith s p = (take (length p) s = p)"

subsection \<open>Raw schema dictionaries\<close>

record enum_value_data =
  ev_name :: string
  ev_value :: int
  ev_tags :: "string list"

record member_data =
  md_name :: string
  md_type :: string
  md_annotation :: "string option"
  md_length :: "string option"
  md_default :: "jvalue option"
  md_optional :: bool
  md_tags :: "string list"

record function_data =
  fd_name :: string
  fd_tags :: "string list"
  fd_args :: "member_data list"
  fd_returns :: "string option"

record type_data =
  td_category :: string
  td_tags :: "string list"
  td_values :: "enum_value_data list"
  td_members :: "member_data list"
  td_args :: "member_data list"
  td_returns :: "string option"
  td_methods :: "function_data list"
  td_type :: string

subsection \<open>Objects\<close>

text \<open>\<open>EnumValue\<close>: the raw value and the flag of the enclosing enum.\<close>

record EnumValue =
  ev_data :: enum_value_data
  ev_requires_prefix :: bool

text \<open>
  \<open>Member\<close>: \<open>type\<close> is \<open>None\<close> until \<open>link\<close> stores the registry key of the resolved
  type; \<open>length_member\<close> and \<open>length_of\<close> are positions in the container's member list.
\<close>

record Member =
  m_data :: member_data
  m_type :: "string option"
  length_member :: "nat option"
  length_of :: "nat option"

text \<open>\<open>MethodType\<close>: a function of an object; it is not an entry of the registry.\<close>

record MethodType =
  meth_name :: string
  meth_object_name :: string
  meth_data :: function_data
  meth_return_type :: "string option"
  meth_args :: "Member list"

text \<open>
  The attributes each class adds to \<open>Type\<close>. \<open>EnumType\<close> and \<open>BitmaskType\<close> carry
  \<open>requires_prefix\<close> and \<open>values\<close>; \<open>FunctionPointerType\<close> and \<open>FunctionType\<close> carry
  \<open>return_type\<close> and \<open>args\<close>; \<open>TypedefType\<close> carries \<open>type\<close>.
\<close>

datatype type_body =
    NativeType
  | EnumType bool "EnumValue list"
  | BitmaskType bool "EnumValue list"
  | StructureType "Member list"
  | FunctionPointerType "string option" "Member list"
  | FunctionType "string option" "Member list"
  | ObjectType "MethodType list"
  | TypedefType "string option"

record type_node =
  t_name :: string
  t_data :: type_data
  t_body :: type_body

type_synonym registry = "(string \<times> type_node) list"

definition category :: "type_node \<Rightarrow> string" where
  "category t = td_category (t_data t)"

subsection \<open>Tag filter\<close>

text \<open>\<open>_is_enabled\<close>: \<open>enabled_tags\<close> is \<open>None\<close> when filtering is off.\<close>

definition is_enabled :: "string list \<Rightarrow> string list option \<Rightarrow> bool" where
  "is_enabled tags enabled_tags =
     (case enabled_tags of
        None \<Rightarrow> True
      | Some en \<Rightarrow> if tags = [] then True else list_all (\<lambda>tag. List.member en tag) tags)"

text \<open>\<open>_is_member_enabled\<close>.\<close>

definition is_member_enabled :: "member_data \<Rightarrow> bool" where
  "is_member_enabled d = (\<not> (md_tags d \<noteq> [] \<and> List.member (md_tags d) ''upstream''))"

subsection \<open>Enum and bitmask construction\<close>

text \<open>
  \<open>any(value['name'][0].isdigit() for value in values)\<close>: the generator is consumed from
  the left and \<open>any\<close> stops at the first true element; \<open>name[0]\<close> on an empty name raises
  \<open>IndexError\<close>.
\<close>

fun any_first_isdigit :: "enum_value_data list \<Rightarrow> py_error + bool" where
  "any_first_isdigit [] = Inr False"
| "any_first_isdigit (v # vs) =
     (case ev_name v of
        [] \<Rightarrow> Inl IndexError
      | c # _ \<Rightarrow> if isdigit c then Inr True else any_first_isdigit vs)"

text \<open>\<open>[value for value in data['values'] if _is_enabled(value, enabled_tags)]\<close>\<close>

definition enabled_values :: "type_data \<Rightarrow> string list option \<Rightarrow> enum_value_data list" where
  "enabled_values data enabled_tags =
     filter (\<lambda>v. is_enabled (ev_tags v) enabled_tags) (td_values data)"

text \<open>
  \<open>EnumType.__init__\<close>; \<open>BitmaskType\<close> inherits it, and \<open>cls\<close> is the class that is
  being constructed.
\<close>

definition enum_init ::
  "(bool \<Rightarrow> EnumValue list \<Rightarrow> type_body) \<Rightarrow> string \<Rightarrow> type_data \<Rightarrow> string list option
     \<Rightarrow> py_error + type_node" where
  "enum_init cls name data enabled_tags =
     (let vals = enabled_values data enabled_tags in
      case any_first_isdigit vals of
        Inl e \<Rightarrow> Inl e
      | Inr rp \<Rightarrow>
          Inr \<lparr>t_name = name, t_data = data,
               t_body = cls rp (map (\<lambda>v. \<lparr>ev_data = v, ev_requires_prefix = rp\<rparr>) vals)\<rparr>)"

definition EnumType_init :: "string \<Rightarrow> type_data \<Rightarrow> string list option \<Rightarrow> py_error + type_node" where
  "EnumType_init = enum_init EnumType"

definition BitmaskType_init :: "string \<Rightarrow> type_data \<Rightarrow> string list option \<Rightarrow> py_error + type_node" where
  "BitmaskType_init = enum_init BitmaskType"

subsection \<open>Members and the length pairing\<close>

definition m_name :: "Member \<Rightarrow> string" where
  "m_name m = md_name (m_data m)"

definition m_annotation :: "Member \<Rightarrow> string option" where
  "m_annotation m = md_annotation (m_data m)"

definition m_length :: "Member \<Rightarrow> string option" where
  "m_length m = md_length (m_data m)"

definition m_default :: "Member \<Rightarrow> jvalue option" where
  "m_default m = md_default (m_data m)"

definition m_optional :: "Member \<Rightarrow> bool" where
  "m_optional m = md_optional (m_data m)"

definition Member_init :: "member_data \<Rightarrow> Member" where
  "Member_init d = \<lparr>m_data = d, m_type = None, length_member = None, length_of = None\<rparr>"

text \<open>A dict comprehension: the pairs are stored from the left, a later key overwrites.\<close>

definition dict_of :: "('k \<times> 'v) list \<Rightarrow> ('k \<rightharpoonup> 'v)" where
  "dict_of kvs = foldl (\<lambda>d (k, v). d(k \<mapsto> v)) Map.empty kvs"

text \<open>\<open>{member.name: member for member in self.members}\<close>\<close>

definition members_by_name :: "Member list \<Rightarrow> (string \<rightharpoonup> nat)" where
  "members_by_name ms = dict_of (map (\<lambda>(i, m). (m_name m, i)) (enumerate 0 ms))"

text \<open>\<open>{member.length: member for member in self.members if member.length}\<close>\<close>

definition members_by_length :: "Member list \<Rightarrow> (string \<rightharpoonup> nat)" where
  "members_by_length ms =
     dict_of (concat (map (\<lambda>(i, m). case m_length m of
                                        None \<Rightarrow> []
                                      | Some l \<Rightarrow> if l \<noteq> [] then [(l, i)] else [])
                          (enumerate 0 ms)))"

text \<open>
  The loop that sets \<open>length_member\<close> and \<open>length_of\<close> on every member. A \<open>length\<close> that
  is \<open>None\<close> is no key of \<open>members_by_name\<close>, whose keys are strings.
\<close>

definition pair_lengths :: "Member list \<Rightarrow> Member list" where
  "pair_lengths ms =
     map (\<lambda>m. m\<lparr>length_member := (case m_length m of
                                     None \<Rightarrow> None
                                   | Some l \<Rightarrow> members_by_name ms l),
                length_of := members_by_length ms (m_name m)\<rparr>) ms"

definition container_members :: "member_data list \<Rightarrow> Member list" where
  "container_members ds = pair_lengths (map Member_init (filter is_member_enabled ds))"

subsection \<open>Constructors of the other classes\<close>

definition NativeType_init :: "string \<Rightarrow> type_data \<Rightarrow> type_node" where
  "NativeType_init name data = \<lparr>t_name = name, t_data = data, t_body = NativeType\<rparr>"

definition StructureType_init :: "string \<Rightarrow> type_data \<Rightarrow> type_node" where
  "StructureType_init name data =
     \<lparr>t_name = name, t_data = data, t_body = StructureType (container_members (td_members data))\<rparr>"

definition FunctionPointerType_init :: "string \<Rightarrow> type_data \<Rightarrow> type_node" where
  "FunctionPointerType_init name data =
     \<lparr>t_name = name, t_data = data,
      t_body = FunctionPointerType None (container_members (td_args data))\<rparr>"

definition FunctionType_init :: "string \<Rightarrow> type_data \<Rightarrow> type_node" where
  "FunctionType_init name data =
     \<lparr>t_name = name, t_data = data,
      t_body = FunctionType None (container_members (td_args data))\<rparr>"

definition MethodType_init :: "string \<Rightarrow> function_data \<Rightarrow> MethodType" where
  "MethodType_init object_name data =
     \<lparr>meth_name = fd_name data, meth_object_name = object_name, meth_data = data,
      meth_return_type = None, meth_args = container_members (fd_args data)\<rparr>"

definition ObjectType_init :: "string \<Rightarrow> type_data \<Rightarrow> string list option \<Rightarrow> type_node" where
  "ObjectType_init name data enabled_tags =
     \<lparr>t_name = name, t_data = data,
      t_body = ObjectType (map (MethodType_init name)
                 (filter (\<lambda>m. is_enabled (fd_tags m) enabled_tags) (td_methods data)))\<rparr>"

definition TypedefType_init :: "string \<Rightarrow> type_data \<Rightarrow> type_node" where
  "TypedefType_init name data = \<lparr>t_name = name, t_data = data, t_body = TypedefType None\<rparr>"

text \<open>\<open>FunctionPointerType.is_callback\<close>, on \<open>self.args\<close>.\<close>

definition is_callback :: "Member list \<Rightarrow> bool" where
  "is_callback args = list_ex (\<lambda>arg. m_name arg = ''userdata'') args"

text \<open>\<open>StructureType.swift_members\<close>, on \<open>self.members\<close>.\<close>

definition swift_members :: "Member list \<Rightarrow> Member list" where
  "swift_members ms = filter (\<lambda>member. length_of member = None) ms"

text \<open>\<open>FunctionPointerType.swift_args\<close>, on \<open>self.args\<close>.\<close>

definition swift_args :: "Member list \<Rightarrow> Member list" where
  "swift_args args = filter (\<lambda>arg. length_of arg = None \<and> m_name arg \<noteq> ''userdata'') args"

subsection \<open>Strings\<close>

text \<open>
  \<open>str.lower\<close>: the letters \<open>A\<close>..\<open>Z\<close> and the capital letters U+00C0..U+00DE, without the
  multiplication sign U+00D7, move up by 32; every other character stays.
\<close>

definition lower_char :: "char \<Rightarrow> char" where
  "lower_char c =
     (let n = (of_char c :: nat) in
      if (65 \<le> n \<and> n \<le> 90) \<or> (192 \<le> n \<and> n \<le> 222 \<and> n \<noteq> 215) then char_of (n + 32)
      else c)"

definition lower :: "string \<Rightarrow> string" where
  "lower s = map lower_char s"

text \<open>
  \<open>str.isspace\<close> of a character: tab to carriage return, the four separators, space, and
  the next-line and no-break-space characters U+0085 and U+00A0.
\<close>

definition isspace :: "char \<Rightarrow> bool" where
  "isspace c =
     (let n = (of_char c :: nat) in
      (9 \<le> n \<and> n \<le> 13) \<or> (28 \<le> n \<and> n \<le> 32) \<or> n = 133 \<or> n = 160)"

definition rstrip_chars :: "string \<Rightarrow> string \<Rightarrow> string" where
  "rstrip_chars cs s = rev (dropWhile (\<lambda>c. c \<in> set cs) (rev s))"

definition strip_chars :: "string \<Rightarrow> string \<Rightarrow> string" where
  "strip_chars cs s = rstrip_chars cs (dropWhile (\<lambda>c. c \<in> set cs) s)"

definition strip :: "string \<Rightarrow> string" where
  "strip s = rev (dropWhile isspace (rev (dropWhile isspace s)))"

text \<open>\<open>s.split(',')\<close>: the empty string splits into one empty piece.\<close>

fun split_char :: "char \<Rightarrow> string \<Rightarrow> string list" where
  "split_char sep [] = [[]]"
| "split_char sep (c # cs) =
     (if c = sep then [] # split_char sep cs
      else (case split_char sep cs of
              [] \<Rightarrow> [[c]]
            | x # xs \<Rightarrow> (c # x) # xs))"

fun join :: "string \<Rightarrow> string list \<Rightarrow> string" where
  "join sep [] = []"
| "join sep [x] = x"
| "join sep (x # y # ys) = x @ sep @ join sep (y # ys)"

text \<open>\<open>str(n)\<close> for an integer, \<open>str(b)\<close> for a boolean.\<close>

fun str_nat :: "nat \<Rightarrow> string" where
  "str_nat n = (if n < 10 then [char_of (48 + n)]
                else str_nat (n div 10) @ [char_of (48 + n mod 10)])"

declare str_nat.simps [simp del]

definition str_int :: "int \<Rightarrow> string" where
  "str_int i = (if i < 0 then CHR ''-'' # str_nat (nat (- i)) else str_nat (nat i))"

fun str_value :: "jvalue \<Rightarrow> string" where
  "str_value (JInt i) = str_int i"
| "str_value (JStr s) = s"
| "str_value (JBool b) = (if b then ''True'' else ''False'')"

subsection \<open>Names\<close>

text \<open>The three helpers of \<open>nameutils\<close> that the module calls.\<close>

record nameutils =
  camel_case :: "string \<Rightarrow> string"
  pascal_case :: "string \<Rightarrow> string"
  swift_safe :: "string \<Rightarrow> string"

definition native_names :: "(string \<times> string) list" where
  "native_names =
     [(''void'', ''Void''),
      (''void *'', ''UnsafeMutableRawPointer!''),
      (''void const *'', ''UnsafeRawPointer!''),
      (''char'', ''CChar''),
      (''float'', ''Float''),
      (''double'', ''Double''),
      (''uint8_t'', ''UInt8''),
      (''uint16_t'', ''UInt16''),
      (''uint32_t'', ''UInt32''),
      (''uint64_t'', ''UInt64''),
      (''int32_t'', ''Int32''),
      (''int64_t'', ''Int64''),
      (''size_t'', ''Int''),
      (''int'', ''Int32''),
      (''bool'', ''Bool'')]"

text \<open>\<open>c_name\<close> of \<open>Type\<close>, \<open>NativeType\<close>, \<open>BitmaskType\<close> and \<open>FunctionType\<close>.\<close>

definition c_name :: "nameutils \<Rightarrow> type_node \<Rightarrow> py_error + string" where
  "c_name nu t =
     (case t_body t of
        NativeType \<Rightarrow>
          (case map_of native_names (t_name t) of
             None \<Rightarrow> Inl (KeyError (t_name t))
           | Some s \<Rightarrow> Inr s)
      | BitmaskType rp vs \<Rightarrow> Inr (''WGPU'' @ pascal_case nu (t_name t) @ ''Flags'')
      | FunctionType r args \<Rightarrow> Inr (''WGPUProc'' @ pascal_case nu (t_name t))
      | _ \<Rightarrow> Inr (''WGPU'' @ pascal_case nu (t_name t)))"

text \<open>\<open>swift_name\<close> of \<open>Type\<close> and \<open>NativeType\<close>.\<close>

definition swift_name :: "nameutils \<Rightarrow> type_node \<Rightarrow> py_error + string" where
  "swift_name nu t =
     (case t_body t of
        NativeType \<Rightarrow> c_name nu t
      | _ \<Rightarrow> Inr (pascal_case nu (lower (t_name t))))"

text \<open>\<open>Member.swift_name\<close>\<close>

definition m_swift_name :: "nameutils \<Rightarrow> Member \<Rightarrow> string" where
  "m_swift_name nu m =
     (if CHR '' '' \<in> set (m_name m) then swift_safe nu (camel_case nu (lower (m_name m)))
      else swift_safe nu (m_name m))"

text \<open>\<open>FunctionPointerType.callback_function_name\<close>\<close>

definition callback_function_name :: "nameutils \<Rightarrow> type_node \<Rightarrow> string" where
  "callback_function_name nu t = camel_case nu (lower (t_name t))"

subsection \<open>Following references\<close>

text \<open>
  \<open>self.type\<close>, read for an attribute: \<open>None\<close> has no attributes. A key outside the
  registry is never stored by \<open>link\<close>; the model answers it as it answers \<open>None\<close>.
\<close>

definition type_ref :: "registry \<Rightarrow> Member \<Rightarrow> py_error + type_node" where
  "type_ref types m =
     (case m_type m of
        None \<Rightarrow> Inl AttributeError
      | Some k \<Rightarrow> (case map_of types k of None \<Rightarrow> Inl AttributeError | Some t \<Rightarrow> Inr t))"

text \<open>
  \<open>self.length_member\<close> and \<open>self.length_of\<close>, read among the members of the container.
  A position outside the list is never stored by the constructors; it reads as \<open>None\<close>.
\<close>

definition sibling :: "Member list \<Rightarrow> nat option \<Rightarrow> Member option" where
  "sibling sibs r =
     (case r of
        None \<Rightarrow> None
      | Some i \<Rightarrow> if i < length sibs then Some (sibs ! i) else None)"

subsection \<open>Value formatting\<close>

text \<open>
  \<open>get_swift_value\<close> of \<open>Type\<close>, \<open>NativeType\<close>, \<open>EnumType\<close> (inherited by \<open>BitmaskType\<close>)
  and \<open>StructureType\<close>. The structure case calls \<open>get_swift_value\<close> of the member types;
  the first argument bounds the depth of these calls, and \<open>RecursionError\<close> is the answer
  when it is used up.
\<close>

fun get_swift_value ::
    "nat \<Rightarrow> nameutils \<Rightarrow> registry \<Rightarrow> type_node \<Rightarrow> jvalue \<Rightarrow> py_error + string"
  and struct_init_args ::
    "nat \<Rightarrow> nameutils \<Rightarrow> registry \<Rightarrow> (Member \<times> string) list \<Rightarrow> py_error + string list"
where
  "get_swift_value n nu types t v =
     (case t_body t of
        NativeType \<Rightarrow>
          (case v of
             JStr s \<Rightarrow>
               if startswith s ''WGPU_'' then
                 (case swift_name nu t of
                    Inl e \<Rightarrow> Inl e
                  | Inr sn \<Rightarrow> Inr (sn @ ''('' @ s @ '')''))
               else if s = ''NAN'' then Inr ''.nan''
               else if t_name t = ''float'' then Inr (rstrip_chars ''f'' s)
               else Inr (str_value v)
           | _ \<Rightarrow> Inr (str_value v))
      | EnumType rp vs \<Rightarrow>
          (case v of
             JStr s \<Rightarrow> Inr (''.'' @ camel_case nu (lower (if rp then ''type '' @ s else s)))
           | _ \<Rightarrow> if rp then Inl TypeError else Inl AttributeError)
      | BitmaskType rp vs \<Rightarrow>
          (case v of
             JStr s \<Rightarrow> Inr (''.'' @ camel_case nu (lower (if rp then ''type '' @ s else s)))
           | _ \<Rightarrow> if rp then Inl TypeError else Inl AttributeError)
      | StructureType ms \<Rightarrow>
          (case v of
             JStr s \<Rightarrow>
               (case n of
                  0 \<Rightarrow> Inl RecursionError
                | Suc k \<Rightarrow>
                    (case struct_init_args k nu types
                            (zip ms (split_char CHR '','' (strip_chars ''{}'' s))) of
                       Inl e \<Rightarrow> Inl e
                     | Inr args \<Rightarrow> Inr (''.init('' @ join '', '' args @ '')'')))
           | _ \<Rightarrow> Inl AttributeError)
      | _ \<Rightarrow> Inr (str_value v))"
| "struct_init_args n nu types [] = Inr []"
| "struct_init_args n nu types ((member, val) # rest) =
     (case type_ref types member of
        Inl e \<Rightarrow> Inl e
      | Inr t \<Rightarrow>
          (case get_swift_value n nu types t (JStr (strip val)) of
             Inl e \<Rightarrow> Inl e
           | Inr s \<Rightarrow>
               (case struct_init_args n nu types rest of
                  Inl e \<Rightarrow> Inl e
                | Inr ss \<Rightarrow> Inr ((m_swift_name nu member @ '': '' @ s) # ss))))"

subsection \<open>Type signatures\<close>

text \<open>\<open>Member.c_type\<close>\<close>

definition c_type :: "nameutils \<Rightarrow> registry \<Rightarrow> Member \<Rightarrow> py_error + string" where
  "c_type nu types m =
     (case type_ref types m of
        Inl e \<Rightarrow> Inl e
      | Inr t \<Rightarrow>
          if m_annotation m = Some ''const*'' then
            (if t_name t = ''void'' then Inr ''UnsafeRawPointer!''
             else if category t = ''object'' then
               (case c_name nu t of
                  Inl e \<Rightarrow> Inl e
                | Inr cn \<Rightarrow> Inr (''UnsafePointer<'' @ cn @ ''?>!''))
             else
               (case c_name nu t of
                  Inl e \<Rightarrow> Inl e
                | Inr cn \<Rightarrow> Inr (''UnsafePointer<'' @ cn @ ''>!'')))
          else if m_annotation m = Some ''*'' then
            (if t_name t = ''void'' then Inr ''UnsafeMutableRawPointer!''
             else
               (case c_name nu t of
                  Inl e \<Rightarrow> Inl e
                | Inr cn \<Rightarrow> Inr (''UnsafeMutablePointer<'' @ cn @ ''>!'')))
          else if category t = ''object'' then
            (case c_name nu t of
               Inl e \<Rightarrow> Inl e
             | Inr cn \<Rightarrow> Inr (cn @ ''!''))
          else c_name nu t)"

text \<open>
  \<open>Member.swift_type\<close>. The first three branches assign \<open>swift_type\<close> and fall through
  to the two suffix steps (\<open>swift_type_finish\<close>); the last branch returns \<open>c_type\<close>.
\<close>

definition swift_type_finish :: "type_node \<Rightarrow> Member \<Rightarrow> string \<Rightarrow> string" where
  "swift_type_finish t m s =
     (let s1 = (if category t = ''function pointer'' then ''@escaping '' @ s else s)
      in if m_optional m then s1 @ ''?'' else s1)"

definition swift_type :: "nameutils \<Rightarrow> registry \<Rightarrow> Member \<Rightarrow> py_error + string" where
  "swift_type nu types m =
     (case type_ref types m of
        Inl e \<Rightarrow> Inl e
      | Inr t \<Rightarrow>
          if t_name t = ''char'' \<and> m_annotation m = Some ''const*'' then
            Inr (swift_type_finish t m ''String'')
          else if m_annotation m = Some ''const*'' \<and> truthy_str (m_length m) then
            (if t_name t = ''void'' then Inr (swift_type_finish t m ''UnsafeRawBufferPointer'')
             else
               (case swift_name nu t of
                  Inl e \<Rightarrow> Inl e
                | Inr sn \<Rightarrow> Inr (swift_type_finish t m (''['' @ sn @ '']''))))
          else if \<not> truthy_str (m_annotation m)
                  \<or> (m_annotation m = Some ''const*'' \<and> category t = ''structure'') then
            (case swift_name nu t of
               Inl e \<Rightarrow> Inl e
             | Inr sn \<Rightarrow> Inr (swift_type_finish t m sn))
          else c_type nu types m)"

subsection \<open>Conversion strategies\<close>

text \<open>
  The named conversions of the module \<open>typeconversion\<close>, which this module only selects,
  and \<open>typeconversion.Conversion(name)\<close> for a callback.
\<close>

datatype conversion =
    buffer_length_conversion
  | array_length_conversion
  | userdata_conversion
  | optional_string_conversion
  | string_conversion
  | buffer_conversion
  | enum_array_conversion
  | struct_array_conversion
  | object_array_conversion
  | implicit_array_conversion
  | optional_struct_conversion
  | struct_pointer_conversion
  | implicit_conversion
  | enum_conversion
  | bitmask_conversion
  | struct_conversion
  | optional_object_conversion
  | object_conversion
  | Conversion string

text \<open>\<open>isinstance(t, FunctionPointerType) and t.is_callback\<close>\<close>

definition is_callback_type :: "type_node \<Rightarrow> bool" where
  "is_callback_type t =
     (case t_body t of
        FunctionPointerType r args \<Rightarrow> is_callback args
      | FunctionType r args \<Rightarrow> is_callback args
      | _ \<Rightarrow> False)"

text \<open>\<open>Member.conversion\<close>; \<open>sibs\<close> are the members of the container of \<open>m\<close>.\<close>

definition conversion :: "nameutils \<Rightarrow> registry \<Rightarrow> Member list \<Rightarrow> Member \<Rightarrow> py_error + conversion" where
  "conversion nu types sibs m =
     (case sibling sibs (length_of m) of
        Some a \<Rightarrow>
          (case type_ref types a of
             Inl e \<Rightarrow> Inl e
           | Inr ta \<Rightarrow>
               if t_name ta = ''void'' then Inr buffer_length_conversion
               else Inr array_length_conversion)
      | None \<Rightarrow>
          if m_name m = ''userdata'' then Inr userdata_conversion
          else
            (case type_ref types m of
               Inl e \<Rightarrow> Inl e
             | Inr t \<Rightarrow>
                 if t_name t = ''char'' \<and> m_annotation m = Some ''const*'' then
                   Inr (if m_optional m then optional_string_conversion else string_conversion)
                 else if m_annotation m = Some ''const*'' \<and> truthy_str (m_length m) then
                   (if t_name t = ''void'' then Inr buffer_conversion
                    else if category t = ''enum'' then Inr enum_array_conversion
                    else if category t = ''structure'' then Inr struct_array_conversion
                    else if category t = ''object'' then Inr object_array_conversion
                    else Inr implicit_array_conversion)
                 else if m_annotation m = Some ''const*'' then
                   (if category t = ''structure'' then
                      Inr (if m_optional m then optional_struct_conversion
                           else struct_pointer_conversion)
                    else Inr implicit_conversion)
                 else if m_annotation m = Some ''*'' then Inr implicit_conversion
                 else if category t = ''enum'' then Inr enum_conversion
                 else if category t = ''bitmask'' then Inr bitmask_conversion
                 else if category t = ''structure'' then Inr struct_conversion
                 else if category t = ''object'' then
                   Inr (if m_optional m then optional_object_conversion else object_conversion)
                 else if is_callback_type t then Inr (Conversion (callback_function_name nu t))
                 else Inr implicit_conversion))"

subsection \<open>Default values\<close>

text \<open>
  \<open>Member.default_swift_value\<close> and \<open>StructureType.has_default_swift_initializer\<close> call
  each other through the member types. As for \<open>get_swift_value\<close>, the first argument
  bounds the depth, and \<open>RecursionError\<close> is the answer when it is used up.
  \<open>all_default_swift_values\<close> is \<open>all(member.default_swift_value for member in ...)\<close>:
  it reads the members from the left and stops at the first falsy value (\<open>None\<close> or the
  empty string).
\<close>

fun default_swift_value ::
    "nat \<Rightarrow> nameutils \<Rightarrow> registry \<Rightarrow> Member list \<Rightarrow> Member \<Rightarrow> py_error + string option"
  and has_default_swift_initializer ::
    "nat \<Rightarrow> nameutils \<Rightarrow> registry \<Rightarrow> Member list \<Rightarrow> py_error + bool"
  and all_default_swift_values ::
    "nat \<Rightarrow> nameutils \<Rightarrow> registry \<Rightarrow> Member list \<Rightarrow> Member list \<Rightarrow> py_error + bool"
where
  "default_swift_value n nu types sibs m =
     (if m_optional m then Inr (Some ''nil'')
      else if (case sibling sibs (length_member m) of
                 None \<Rightarrow> False
               | Some lm \<Rightarrow> is_zero_default (m_default lm)) then Inr (Some ''[]'')
      else
        (case (if truthy (m_default m) then m_default m else None) of
           Some v \<Rightarrow>
             (case type_ref types m of
                Inl e \<Rightarrow> Inl e
              | Inr t \<Rightarrow>
                  (case get_swift_value n nu types t v of
                     Inl e \<Rightarrow> Inl e
                   | Inr s \<Rightarrow> Inr (Some s)))
         | None \<Rightarrow>
             (case type_ref types m of
                Inl e \<Rightarrow> Inr None
              | Inr t \<Rightarrow>
                  (case t_body t of
                     StructureType ms \<Rightarrow>
                       if truthy_str (m_annotation m) then Inr None
                       else
                         (case n of
                            0 \<Rightarrow> Inl RecursionError
                          | Suc k \<Rightarrow>
                              (case has_default_swift_initializer k nu types ms of
                                 Inl e \<Rightarrow> Inl e
                               | Inr b \<Rightarrow>
                                   if b then
                                     (case swift_name nu t of
                                        Inl e \<Rightarrow> Inl e
                                      | Inr sn \<Rightarrow> Inr (Some (sn @ ''()'')))
                                   else Inr None))
                   | _ \<Rightarrow> Inr None))))"
| "has_default_swift_initializer n nu types ms =
     all_default_swift_values n nu types ms (swift_members ms)"
| "all_default_swift_values n nu types sibs [] = Inr True"
| "all_default_swift_values n nu types sibs (member # rest) =
     (case default_swift_value n nu types sibs member of
        Inl e \<Rightarrow> Inl e
      | Inr d \<Rightarrow>
          if truthy_str d then all_default_swift_values n nu types sibs rest
          else Inr False)"

subsection \<open>Linking\<close>

text \<open>
  \<open>types[name]\<close> raises \<open>KeyError(name)\<close> for a name that is no key of the registry;
  otherwise the reference to the object stored under \<open>name\<close> is the key itself.
\<close>

definition resolve :: "registry \<Rightarrow> string \<Rightarrow> py_error + string" where
  "resolve types name =
     (case map_of types name of
        None \<Rightarrow> Inl (KeyError name)
      | Some t \<Rightarrow> Inr name)"

text \<open>\<open>Member.link\<close>\<close>

definition Member_link :: "registry \<Rightarrow> Member \<Rightarrow> py_error + Member" where
  "Member_link types m =
     (case resolve types (md_type (m_data m)) of
        Inl e \<Rightarrow> Inl e
      | Inr r \<Rightarrow> Inr (m\<lparr>m_type := Some r\<rparr>))"

text \<open>\<open>for member in self.members: member.link(types)\<close>\<close>

fun link_members :: "registry \<Rightarrow> Member list \<Rightarrow> py_error + Member list" where
  "link_members types [] = Inr []"
| "link_members types (m # ms) =
     (case Member_link types m of
        Inl e \<Rightarrow> Inl e
      | Inr m' \<Rightarrow>
          (case link_members types ms of
             Inl e \<Rightarrow> Inl e
           | Inr ms' \<Rightarrow> Inr (m' # ms')))"

text \<open>
  The assignment of \<open>return_type\<close> in \<open>FunctionPointerType.link\<close>: \<open>returns\<close> is
  \<open>data.get('returns')\<close> and \<open>rt\<close> the present value of \<open>return_type\<close>, which stays when
  \<open>returns\<close> is falsy or \<open>'void'\<close>.
\<close>

definition link_return :: "registry \<Rightarrow> string option \<Rightarrow> string option \<Rightarrow> py_error + string option" where
  "link_return types returns rt =
     (case returns of
        None \<Rightarrow> Inr rt
      | Some r \<Rightarrow>
          if r \<noteq> [] \<and> r \<noteq> ''void'' then
            (case resolve types r of
               Inl e \<Rightarrow> Inl e
             | Inr k \<Rightarrow> Inr (Some k))
          else Inr rt)"

text \<open>\<open>FunctionPointerType.link\<close>, inherited by \<open>MethodType\<close>.\<close>

definition MethodType_link :: "registry \<Rightarrow> MethodType \<Rightarrow> py_error + MethodType" where
  "MethodType_link types f =
     (case link_return types (fd_returns (meth_data f)) (meth_return_type f) of
        Inl e \<Rightarrow> Inl e
      | Inr rt \<Rightarrow>
          (case link_members types (meth_args f) of
             Inl e \<Rightarrow> Inl e
           | Inr args \<Rightarrow> Inr (f\<lparr>meth_return_type := rt, meth_args := args\<rparr>)))"

text \<open>\<open>for method in self.methods: method.link(types)\<close>\<close>

fun link_methods :: "registry \<Rightarrow> MethodType list \<Rightarrow> py_error + MethodType list" where
  "link_methods types [] = Inr []"
| "link_methods types (f # fs) =
     (case MethodType_link types f of
        Inl e \<Rightarrow> Inl e
      | Inr f' \<Rightarrow>
          (case link_methods types fs of
             Inl e \<Rightarrow> Inl e
           | Inr fs' \<Rightarrow> Inr (f' # fs')))"

text \<open>
  \<open>link\<close> of \<open>Type\<close> (which does nothing), \<open>StructureType\<close>, \<open>FunctionPointerType\<close>,
  \<open>ObjectType\<close> and \<open>TypedefType\<close>.
\<close>

definition link :: "registry \<Rightarrow> type_node \<Rightarrow> py_error + type_node" where
  "link types t =
     (case t_body t of
        StructureType ms \<Rightarrow>
          (case link_members types ms of
             Inl e \<Rightarrow> Inl e
           | Inr ms' \<Rightarrow> Inr (t\<lparr>t_body := StructureType ms'\<rparr>))
      | FunctionPointerType rt args \<Rightarrow>
          (case link_return types (td_returns (t_data t)) rt of
             Inl e \<Rightarrow> Inl e
           | Inr rt' \<Rightarrow>
               (case link_members types args of
                  Inl e \<Rightarrow> Inl e
                | Inr args' \<Rightarrow> Inr (t\<lparr>t_body := FunctionPointerType rt' args'\<rparr>)))
      | FunctionType rt args \<Rightarrow>
          (case link_return types (td_returns (t_data t)) rt of
             Inl e \<Rightarrow> Inl e
           | Inr rt' \<Rightarrow>
               (case link_members types args of
                  Inl e \<Rightarrow> Inl e
                | Inr args' \<Rightarrow> Inr (t\<lparr>t_body := FunctionType rt' args'\<rparr>)))
      | ObjectType fs \<Rightarrow>
          (case link_methods types fs of
             Inl e \<Rightarrow> Inl e
           | Inr fs' \<Rightarrow> Inr (t\<lparr>t_body := ObjectType fs'\<rparr>))
      | TypedefType r \<Rightarrow>
          (case resolve types (td_type (t_data t)) of
             Inl e \<Rightarrow> Inl e
           | Inr k \<Rightarrow> Inr (t\<lparr>t_body := TypedefType (Some k)\<rparr>))
      | _ \<Rightarrow> Inr t)"

text \<open>
  \<open>for type_ in self.types.values(): type_.link(self.types)\<close>: the nodes \<open>ts\<close> are linked
  in the order of the registry, each against the whole registry \<open>types\<close>.
\<close>

fun link_all :: "registry \<Rightarrow> registry \<Rightarrow> py_error + registry" where
  "link_all types [] = Inr []"
| "link_all types ((k, t) # ts) =
     (case link types t of
        Inl e \<Rightarrow> Inl e
      | Inr t' \<Rightarrow>
          (case link_all types ts of
             Inl e \<Rightarrow> Inl e
           | Inr ts' \<Rightarrow> Inr ((k, t') # ts')))"

definition link_pass :: "registry \<Rightarrow> py_error + registry" where
  "link_pass types = link_all types types"

subsection \<open>The model\<close>

text \<open>
  The dispatch on \<open>category_types\<close>: \<open>None\<close> for a category that is no key of the table,
  otherwise what the constructor of the class returns or raises.
\<close>

definition construct :: "string \<Rightarrow> type_data \<Rightarrow> string list option \<Rightarrow> (py_error + type_node) option" where
  "construct name data enabled_tags =
     (let c = td_category data in
      if c = ''native'' then Some (Inr (NativeType_init name data))
      else if c = ''enum'' then Some (EnumType_init name data enabled_tags)
      else if c = ''bitmask'' then Some (BitmaskType_init name data enabled_tags)
      else if c = ''structure'' then Some (Inr (StructureType_init name data))
      else if c = ''function pointer'' then Some (Inr (FunctionPointerType_init name data))
      else if c = ''function'' then Some (Inr (FunctionType_init name data))
      else if c = ''object'' then Some (Inr (ObjectType_init name data enabled_tags))
      else if c = ''typedef'' then Some (Inr (TypedefType_init name data))
      else None)"

text \<open>
  The first loop of \<open>Model.__init__\<close> over \<open>data.items()\<close>, a dictionary in insertion
  order (its keys are distinct); \<open>acc\<close> is \<open>self.types\<close> so far.
\<close>

fun build_types ::
  "(string \<times> type_data) list \<Rightarrow> string list option \<Rightarrow> registry \<Rightarrow> py_error + registry" where
  "build_types [] enabled_tags acc = Inr acc"
| "build_types ((name, type_data) # rest) enabled_tags acc =
     (if startswith name ''_'' then build_types rest enabled_tags acc
      else if \<not> is_enabled (td_tags type_data) enabled_tags then build_types rest enabled_tags acc
      else
        (case construct name type_data enabled_tags of
           None \<Rightarrow> build_types rest enabled_tags acc
         | Some (Inl e) \<Rightarrow> Inl e
         | Some (Inr t) \<Rightarrow> build_types rest enabled_tags (acc @ [(name, t)])))"

text \<open>\<open>Model.__init__\<close>: the result is \<open>self.types\<close>, or the exception that leaves it.\<close>

definition Model_init :: "(string \<times> type_data) list \<Rightarrow> string list option \<Rightarrow> py_error + registry" where
  "Model_init data enabled_tags =
     (case build_types data enabled_tags [] of
        Inl e \<Rightarrow> Inl e
      | Inr types \<Rightarrow> link_pass types)"

text \<open>\<open>Model.types_by_category\<close>\<close>

definition types_by_category :: "registry \<Rightarrow> string \<Rightarrow> type_node list" where
  "types_by_category types c = filter (\<lambda>t. category t = c) (map snd types)"

subsection \<open>The type names a node stores\<close>

text \<open>
  The names that \<open>link\<close> looks up, in the order in which it reads them: the \<open>type\<close> of
  every member and argument, the \<open>returns\<close> of a function when it is neither falsy nor
  \<open>'void'\<close>, and the \<open>type\<close> of a typedef.
\<close>

definition member_refs :: "Member list \<Rightarrow> string list" where
  "member_refs ms = map (\<lambda>m. md_type (m_data m)) ms"

definition return_refs :: "string option \<Rightarrow> string list" where
  "return_refs returns =
     (case returns of
        None \<Rightarrow> []
      | Some r \<Rightarrow> if r \<noteq> [] \<and> r \<noteq> ''void'' then [r] else [])"

definition node_refs :: "type_node \<Rightarrow> string list" where
  "node_refs t =
     (case t_body t of
        StructureType ms \<Rightarrow> member_refs ms
      | FunctionPointerType rt args \<Rightarrow> return_refs (td_returns (t_data t)) @ member_refs args
      | FunctionType rt args \<Rightarrow> return_refs (td_returns (t_data t)) @ member_refs args
      | ObjectType fs \<Rightarrow>
          concat (map (\<lambda>f. return_refs (fd_returns (meth_data f)) @ member_refs (meth_args f)) fs)
      | TypedefType r \<Rightarrow> [td_type (t_data t)]
      | _ \<Rightarrow> [])"

definition stored_refs :: "registry \<Rightarrow> string list" where
  "stored_refs types = concat (map (\<lambda>(k, t). node_refs t) types)"

subsection \<open>Reading the attributes of an enum\<close>

text \<open>\<open>self.requires_prefix\<close> and \<open>self.values\<close>, which only enums and bitmasks have.\<close>

definition requires_prefix :: "type_node \<Rightarrow> bool option" where
  "requires_prefix t =
     (case t_body t of
        EnumType rp vs \<Rightarrow> Some rp
      | BitmaskType rp vs \<Rightarrow> Some rp
      | _ \<Rightarrow> None)"

definition enum_values :: "type_node \<Rightarrow> EnumValue list" where
  "enum_values t =
     (case t_body t of
        EnumType rp vs \<Rightarrow> vs
      | BitmaskType rp vs \<Rightarrow> vs
      | _ \<Rightarrow> [])"

text \<open>
  A name starts with a character that \<open>str.isdigit\<close> accepts, and a name starts with a
  decimal digit; the empty name does neither.
\<close>

definition starts_with_digit :: "string \<Rightarrow> bool" where
  "starts_with_digit s = (case s of [] \<Rightarrow> False | c # _ \<Rightarrow> isdigit c)"

definition starts_with_decimal_digit :: "string \<Rightarrow> bool" where
  "starts_with_decimal_digit s = (case s of [] \<Rightarrow> False | c # _ \<Rightarrow> isdecimal c)"

subsection \<open>Example inputs\<close>

text \<open>Raw dictionaries with the given required keys and every other key absent.\<close>

definition type_data0 :: "string \<Rightarrow> type_data" where
  "type_data0 c =
     \<lparr>td_category = c, td_tags = [], td_values = [], td_members = [], td_args = [],
      td_returns = None, td_methods = [], td_type = []\<rparr>"

definition member_data0 :: "string \<Rightarrow> string \<Rightarrow> member_data" where
  "member_data0 name ty =
     \<lparr>md_name = name, md_type = ty, md_annotation = None, md_length = None,
      md_default = None, md_optional = False, md_tags = []\<rparr>"

definition enum_value0 :: "string \<Rightarrow> int \<Rightarrow> enum_value_data" where
  "enum_value0 name v = \<lparr>ev_name = name, ev_value = v, ev_tags = []\<rparr>"

text \<open>A stand-in for \<open>nameutils\<close> where an example needs one: every helper returns its argument.\<close>

definition id_nameutils :: nameutils where
  "id_nameutils = \<lparr>camel_case = (\<lambda>s. s), pascal_case = (\<lambda>s. s), swift_safe = (\<lambda>s. s)\<rparr>"

text \<open>The enum of the spec's scenario, with the values \<open>1x\<close> and \<open>2x\<close>.\<close>

definition ex_enum_data :: type_data where
  "ex_enum_data = (type_data0 ''enum'')\<lparr>td_values := [enum_value0 ''1x'' 0, enum_value0 ''2x'' 1]\<rparr>"

definition ex_enum :: type_node where
  "ex_enum =
     \<lparr>t_name = ''E'', t_data = ex_enum_data,
      t_body = EnumType True [\<lparr>ev_data = enum_value0 ''1x'' 0, ev_requires_prefix = True\<rparr>,
                              \<lparr>ev_data = enum_value0 ''2x'' 1, ev_requires_prefix = True\<rparr>]\<rparr>"

text \<open>An enum whose second value has the empty name, after a value that starts with a digit.\<close>

definition ex_enum_empty_name :: type_data where
  "ex_enum_empty_name =
     (type_data0 ''enum'')\<lparr>td_values := [enum_value0 ''1x'' 0, enum_value0 '''' 1]\<rparr>"

text \<open>An enum whose only value has the empty name.\<close>

definition ex_enum_only_empty :: type_data where
  "ex_enum_only_empty = (type_data0 ''enum'')\<lparr>td_values := [enum_value0 '''' 0]\<rparr>"

text \<open>An enum whose value with the empty name follows a name that starts with U+00B2.\<close>

definition ex_enum_superscript_empty :: type_data where
  "ex_enum_superscript_empty =
     (type_data0 ''enum'')
       \<lparr>td_values := [enum_value0 [CHR 0xB2, CHR ''x''] 0, enum_value0 '''' 1]\<rparr>"

text \<open>An enum whose only value has a name that starts with the superscript two, U+00B2.\<close>

definition ex_enum_superscript :: type_data where
  "ex_enum_superscript =
     (type_data0 ''enum'')\<lparr>td_values := [enum_value0 [CHR 0xB2, CHR ''x''] 0]\<rparr>"

text \<open>
  A schema with a structure that holds an optional array: \<open>count\<close> is the length of
  \<open>items\<close>. \<open>ex_list_types\<close> is the registry that \<open>Model.__init__\<close> builds from it.
\<close>

definition ex_count_data :: member_data where
  "ex_count_data = member_data0 ''count'' ''uint32_t''"

definition ex_items_data :: member_data where
  "ex_items_data =
     (member_data0 ''items'' ''uint32_t'')
       \<lparr>md_annotation := Some ''const*'', md_length := Some ''count'', md_optional := True\<rparr>"

definition ex_list_schema :: "(string \<times> type_data) list" where
  "ex_list_schema =
     [(''uint32_t'', type_data0 ''native''),
      (''list'', (type_data0 ''structure'')\<lparr>td_members := [ex_count_data, ex_items_data]\<rparr>)]"

definition ex_count :: Member where
  "ex_count =
     \<lparr>m_data = ex_count_data, m_type = Some ''uint32_t'', length_member = None,
      length_of = Some 1\<rparr>"

definition ex_items :: Member where
  "ex_items =
     \<lparr>m_data = ex_items_data, m_type = Some ''uint32_t'', length_member = Some 0,
      length_of = None\<rparr>"

definition ex_uint32 :: type_node where
  "ex_uint32 = \<lparr>t_name = ''uint32_t'', t_data = type_data0 ''native'', t_body = NativeType\<rparr>"

definition ex_list_types :: registry where
  "ex_list_types =
     [(''uint32_t'', ex_uint32),
      (''list'',
       \<lparr>t_name = ''list'',
        t_data = (type_data0 ''structure'')\<lparr>td_members := [ex_count_data, ex_items_data]\<rparr>,
        t_body = StructureType [ex_count, ex_items]\<rparr>)]"

text \<open>An optional argument that is a mutable pointer to \<open>void\<close>, linked.\<close>

definition ex_void :: type_node where
  "ex_void = \<lparr>t_name = ''void'', t_data = type_data0 ''native'', t_body = NativeType\<rparr>"

definition ex_out :: Member where
  "ex_out =
     \<lparr>m_data = (member_data0 ''out'' ''void'')\<lparr>md_annotation := Some ''*'', md_optional := True\<rparr>,
      m_type = Some ''void'', length_member = None, length_of = None\<rparr>"

text \<open>An optional string argument, linked.\<close>

definition ex_char :: type_node where
  "ex_char = \<lparr>t_name = ''char'', t_data = type_data0 ''native'', t_body = NativeType\<rparr>"

definition ex_label :: Member where
  "ex_label =
     \<lparr>m_data = (member_data0 ''label'' ''char'')
                 \<lparr>md_annotation := Some ''const*'', md_optional := True\<rparr>,
      m_type = Some ''char'', length_member = None, length_of = None\<rparr>"

text \<open>A function pointer with two arguments named \<open>userdata\<close>.\<close>

definition ex_two_userdata :: type_data where
  "ex_two_userdata =
     (type_data0 ''function pointer'')
       \<lparr>td_args := [member_data0 ''userdata'' ''void *'', member_data0 ''userdata'' ''void *'']\<rparr>"

text \<open>\<open>self.args\<close> of a function pointer or function; no other class has the attribute.\<close>

definition args_of :: "type_node \<Rightarrow> Member list" where
  "args_of t =
     (case t_body t of
        FunctionPointerType rt args \<Rightarrow> args
      | FunctionType rt args \<Rightarrow> args
      | _ \<Rightarrow> [])"

text \<open>
  The last branch of \<open>Member.swift_type\<close> is taken: none of the conditions of the three
  branches before it holds.
\<close>

definition returns_c_type :: "type_node \<Rightarrow> Member \<Rightarrow> bool" where
  "returns_c_type t m =
     (\<not> (t_name t = ''char'' \<and> m_annotation m = Some ''const*'')
      \<and> \<not> (m_annotation m = Some ''const*'' \<and> truthy_str (m_length m))
      \<and> \<not> (\<not> truthy_str (m_annotation m)
             \<or> (m_annotation m = Some ''const*'' \<and> category t = ''structure'')))"

text \<open>A structure in which two arrays name the same length member.\<close>

definition ex_shared_length :: "member_data list" where
  "ex_shared_length =
     [(member_data0 ''a'' ''uint32_t'')\<lparr>md_annotation := Some ''const*'', md_length := Some ''n''\<rparr>,
      (member_data0 ''b'' ''uint32_t'')\<lparr>md_annotation := Some ''const*'', md_length := Some ''n''\<rparr>,
      member_data0 ''n'' ''uint32_t'']"

subsection \<open>Auxiliary notions for the proofs\<close>

text \<open>
  The pairs \<open>(key, position)\<close> of the members that have a key, in the order of the list:
  the shape of both dictionaries of the pairing.
\<close>

definition key_index :: "('a \<Rightarrow> 'k option) \<Rightarrow> 'a list \<Rightarrow> ('k \<times> nat) list" where
  "key_index keyf ms =
     concat (map (\<lambda>(i, m). case keyf m of None \<Rightarrow> [] | Some k \<Rightarrow> [(k, i)]) (enumerate 0 ms))"

text \<open>The key of a member in \<open>members_by_length\<close>: its \<open>length\<close>, when that is truthy.\<close>

definition length_key :: "Member \<Rightarrow> string option" where
  "length_key m =
     (case m_length m of None \<Rightarrow> None | Some l \<Rightarrow> if l \<noteq> [] then Some l else None)"

text \<open>
  What the link pass does, stated without the loops: \<open>first_missing\<close> is the first of the
  given names that is no key of the registry, \<open>outcome\<close> the result of a pass that looks
  the names up in order and otherwise returns \<open>v\<close>, and \<open>linked\<close> a node with every
  reference resolved.
\<close>

definition first_missing :: "registry \<Rightarrow> string list \<Rightarrow> string option" where
  "first_missing types refs = find (\<lambda>r. map_of types r = None) refs"

definition outcome :: "registry \<Rightarrow> string list \<Rightarrow> 'a \<Rightarrow> py_error + 'a" where
  "outcome types refs v =
     (case first_missing types refs of None \<Rightarrow> Inr v | Some k \<Rightarrow> Inl (KeyError k))"

definition linked_member :: "Member \<Rightarrow> Member" where
  "linked_member m = m\<lparr>m_type := Some (md_type (m_data m))\<rparr>"

definition linked_return :: "string option \<Rightarrow> string option \<Rightarrow> string option" where
  "linked_return returns rt =
     (case returns of
        None \<Rightarrow> rt
      | Some r \<Rightarrow> if r \<noteq> [] \<and> r \<noteq> ''void'' then Some r else rt)"

definition linked_method :: "MethodType \<Rightarrow> MethodType" where
  "linked_method f =
     f\<lparr>meth_return_type := linked_return (fd_returns (meth_data f)) (meth_return_type f),
       meth_args := map linked_member (meth_args f)\<rparr>"

definition linked :: "type_node \<Rightarrow> type_node" where
  "linked t =
     (case t_body t of
        StructureType ms \<Rightarrow> t\<lparr>t_body := StructureType (map linked_member ms)\<rparr>
      | FunctionPointerType rt args \<Rightarrow>
          t\<lparr>t_body := FunctionPointerType (linked_return (td_returns (t_data t)) rt)
                         (map linked_member args)\<rparr>
      | FunctionType rt args \<Rightarrow>
          t\<lparr>t_body := FunctionType (linked_return (td_returns (t_data t)) rt)
                         (map linked_member args)\<rparr>
      | ObjectType fs \<Rightarrow> t\<lparr>t_body := ObjectType (map linked_method fs)\<rparr>
      | TypedefType r \<Rightarrow> t\<lparr>t_body := TypedefType (Some (td_type (t_data t)))\<rparr>
      | _ \<Rightarrow> t)"


text \<open>The registry built from \<open>ex_list_schema\<close>, before the link pass.\<close>

definition ex_list_built :: registry where
  "ex_list_built =
     [(''uint32_t'', ex_uint32),
      (''list'',
       \<lparr>t_name = ''list'',
        t_data = (type_data0 ''structure'')\<lparr>td_members := [ex_count_data, ex_items_data]\<rparr>,
        t_body = StructureType [ex_count\<lparr>m_type := None\<rparr>, ex_items\<lparr>m_type := None\<rparr>]\<rparr>)]"

text \<open>A schema whose structure has a member of a type that is no entry of the schema.\<close>

definition ex_bad_schema :: "(string \<times> type_data) list" where
  "ex_bad_schema =
     [(''uint32_t'', type_data0 ''native''),
      (''s'', (type_data0 ''structure'')
                \<lparr>td_members := [member_data0 ''a'' ''uint32_t'', member_data0 ''b'' ''missing'']\<rparr>)]"

definition ex_bad_built :: registry where
  "ex_bad_built =
     [(''uint32_t'', ex_uint32),
      (''s'',
       \<lparr>t_name = ''s'',
        t_data = (type_data0 ''structure'')
                   \<lparr>td_members := [member_data0 ''a'' ''uint32_t'', member_data0 ''b'' ''missing'']\<rparr>,
        t_body = StructureType [Member_init (member_data0 ''a'' ''uint32_t''),
                                Member_init (member_data0 ''b'' ''missing'')]\<rparr>)]"

text \<open>
  A schema with a structure \<open>list\<close> whose length member \<open>count\<close> has the default \<open>0\<close>, an
  empty structure \<open>empty\<close>, and a structure \<open>holder\<close> whose member \<open>x\<close> of type \<open>empty\<close>
  has the default \<open>0\<close>. \<open>ex_zlist_types\<close> is the registry that \<open>Model.__init__\<close> builds.
\<close>

definition ex_zcount_data :: member_data where
  "ex_zcount_data = (member_data0 ''count'' ''uint32_t'')\<lparr>md_default := Some (JInt 0)\<rparr>"

definition ex_zitems_data :: member_data where
  "ex_zitems_data =
     (member_data0 ''items'' ''uint32_t'')
       \<lparr>md_annotation := Some ''const*'', md_length := Some ''count''\<rparr>"

definition ex_x_data :: member_data where
  "ex_x_data = (member_data0 ''x'' ''empty'')\<lparr>md_default := Some (JInt 0)\<rparr>"

definition ex_zlist_schema :: "(string \<times> type_data) list" where
  "ex_zlist_schema =
     [(''uint32_t'', type_data0 ''native''),
      (''empty'', type_data0 ''structure''),
      (''list'', (type_data0 ''structure'')\<lparr>td_members := [ex_zcount_data, ex_zitems_data]\<rparr>),
      (''holder'', (type_data0 ''structure'')\<lparr>td_members := [ex_x_data]\<rparr>)]"

definition ex_zcount :: Member where
  "ex_zcount =
     \<lparr>m_data = ex_zcount_data, m_type = Some ''uint32_t'', length_member = None,
      length_of = Some 1\<rparr>"

definition ex_zitems :: Member where
  "ex_zitems =
     \<lparr>m_data = ex_zitems_data, m_type = Some ''uint32_t'', length_member = Some 0,
      length_of = None\<rparr>"

definition ex_x :: Member where
  "ex_x = \<lparr>m_data = ex_x_data, m_type = Some ''empty'', length_member = None, length_of = None\<rparr>"

definition ex_zlist_types :: registry where
  "ex_zlist_types =
     [(''uint32_t'', ex_uint32),
      (''empty'',
       \<lparr>t_name = ''empty'', t_data = type_data0 ''structure'', t_body = StructureType []\<rparr>),
      (''list'',
       \<lparr>t_name = ''list'',
        t_data = (type_data0 ''structure'')\<lparr>td_members := [ex_zcount_data, ex_zitems_data]\<rparr>,
        t_body = StructureType [ex_zcount, ex_zitems]\<rparr>),
      (''holder'',
       \<lparr>t_name = ''holder'',
        t_data = (type_data0 ''structure'')\<lparr>td_members := [ex_x_data]\<rparr>,
        t_body = StructureType [ex_x]\<rparr>)]"

text \<open>The node of the empty structure in \<open>ex_zlist_types\<close>.\<close>

definition ex_empty :: type_node where
  "ex_empty =
     \<lparr>t_name = ''empty'', t_data = type_data0 ''structure'', t_body = StructureType []\<rparr>"

text \<open>A linked member of type \<open>uint32_t\<close> with no default.\<close>

definition ex_plain :: Member where
  "ex_plain =
     \<lparr>m_data = member_data0 ''y'' ''uint32_t'', m_type = Some ''uint32_t'',
      length_member = None, length_of = None\<rparr>"

text \<open>\<open>isinstance(self.type, StructureType)\<close>\<close>

definition is_structure_typed :: "registry \<Rightarrow> Member \<Rightarrow> bool" where
  "is_structure_typed types m =
     (case type_ref types m of
        Inl e \<Rightarrow> False
      | Inr t \<Rightarrow> (case t_body t of StructureType ms \<Rightarrow> True | _ \<Rightarrow> False))"

text \<open>The paired length member has the default \<open>0\<close> or \<open>'0'\<close>.\<close>

definition length_member_is_zero :: "Member list \<Rightarrow> Member \<Rightarrow> bool" where
  "length_member_is_zero sibs m =
     (case sibling sibs (length_member m) of
        None \<Rightarrow> False
      | Some lm \<Rightarrow> is_zero_default (m_default lm))"

section \<open>Properties\<close>

subsection \<open>Enum construction\<close>

lemma any_first_isdigit_Inr:
  "any_first_isdigit vs = Inr b \<Longrightarrow> b = (\<exists>v\<in>set vs. starts_with_digit (ev_name v))"
  by (induction vs) (auto simp: starts_with_digit_def split: list.splits if_splits)

lemma any_first_isdigit_error:
  "any_first_isdigit vs = Inl e \<Longrightarrow> e = IndexError"
  by (induction vs) (auto split: list.splits if_splits)

lemma any_first_isdigit_total:
  "\<forall>v\<in>set vs. ev_name v \<noteq> [] \<Longrightarrow> \<exists>b. any_first_isdigit vs = Inr b"
  by (induction vs) (auto split: list.splits if_splits)

lemma any_first_isdigit_fails:
  "any_first_isdigit vs = Inl IndexError \<longleftrightarrow>
     (\<exists>pre v post. vs = pre @ v # post \<and> ev_name v = []
        \<and> (\<forall>u\<in>set pre. \<not> starts_with_digit (ev_name u)))"
proof (induction vs)
  case Nil
  show ?case by simp
next
  case (Cons a vs)
  show ?case
  proof (cases "ev_name a")
    case Nil
    have "\<exists>pre v post. a # vs = pre @ v # post \<and> ev_name v = []
        \<and> (\<forall>u\<in>set pre. \<not> starts_with_digit (ev_name u))"
      using Nil by (intro exI[of _ "[]"] exI[of _ a] exI[of _ vs]) simp
    then show ?thesis using Nil by simp
  next
    case (Cons c cs)
    note nm = this
    show ?thesis
    proof (cases "isdigit c")
      case True
      have "\<not> (\<exists>pre v post. a # vs = pre @ v # post \<and> ev_name v = []
        \<and> (\<forall>u\<in>set pre. \<not> starts_with_digit (ev_name u)))"
      proof
        assume "\<exists>pre v post. a # vs = pre @ v # post \<and> ev_name v = []
        \<and> (\<forall>u\<in>set pre. \<not> starts_with_digit (ev_name u))"
        then obtain pre v post where h: "a # vs = pre @ v # post" "ev_name v = []"
          "\<forall>u\<in>set pre. \<not> starts_with_digit (ev_name u)" by blast
        show False
        proof (cases pre)
          case Nil
          with h nm show False by simp
        next
          case (Cons p ps)
          with h have "p = a" by simp
          with Cons h(3) nm True show False by (simp add: starts_with_digit_def)
        qed
      qed
      then show ?thesis using nm True by simp
    next
      case False
      have "(\<exists>pre v post. a # vs = pre @ v # post \<and> ev_name v = []
        \<and> (\<forall>u\<in>set pre. \<not> starts_with_digit (ev_name u))) \<longleftrightarrow>
        (\<exists>pre v post. vs = pre @ v # post \<and> ev_name v = []
        \<and> (\<forall>u\<in>set pre. \<not> starts_with_digit (ev_name u)))" (is "?L \<longleftrightarrow> ?R")
      proof
        assume ?L
        then obtain pre v post where h: "a # vs = pre @ v # post" "ev_name v = []"
          "\<forall>u\<in>set pre. \<not> starts_with_digit (ev_name u)" by blast
        show ?R
        proof (cases pre)
          case Nil
          with h nm show ?thesis by simp
        next
          case (Cons p ps)
          with h have "vs = ps @ v # post" "\<forall>u\<in>set ps. \<not> starts_with_digit (ev_name u)"
            by simp_all
          with h(2) show ?thesis by blast
        qed
      next
        assume ?R
        then obtain pre v post where h: "vs = pre @ v # post" "ev_name v = []"
          "\<forall>u\<in>set pre. \<not> starts_with_digit (ev_name u)" by blast
        have "a # vs = (a # pre) @ v # post" using h by simp
        moreover have "\<forall>u\<in>set (a # pre). \<not> starts_with_digit (ev_name u)"
          using h nm False by (simp add: starts_with_digit_def)
        ultimately show ?L using h(2) by blast
      qed
      then show ?thesis using nm False Cons.IH by simp
    qed
  qed
qed

lemma enum_init_Inr:
  assumes "enum_init cls name data enabled_tags = Inr t"
  shows "\<exists>rp. any_first_isdigit (enabled_values data enabled_tags) = Inr rp
           \<and> t_body t = cls rp (map (\<lambda>v. \<lparr>ev_data = v, ev_requires_prefix = rp\<rparr>)
                                   (enabled_values data enabled_tags))"
  using assms by (auto simp: enum_init_def Let_def split: sum.splits)

lemma isdecimal_isdigit: "isdecimal c \<Longrightarrow> isdigit c"
  by (simp add: isdecimal_def isdigit_def Let_def)

lemma starts_with_decimal_digit_imp: "starts_with_decimal_digit s \<Longrightarrow> starts_with_digit s"
  by (cases s) (simp_all add: starts_with_decimal_digit_def starts_with_digit_def isdecimal_isdigit)

text \<open>
  C6, as stated, fails: the name of the only value starts with the superscript two, which
  \<open>str.isdigit\<close> accepts and which is no decimal digit; the enum is constructed with
  \<open>requires_prefix\<close> true.
\<close>

theorem requires_prefix_superscript_counterexample:
  "EnumType_init ''E'' ex_enum_superscript None =
     Inr \<lparr>t_name = ''E'', t_data = ex_enum_superscript,
          t_body = EnumType True
            [\<lparr>ev_data = enum_value0 [CHR 0xB2, CHR ''x''] 0, ev_requires_prefix = True\<rparr>]\<rparr>
   \<and> enabled_values ex_enum_superscript None = [enum_value0 [CHR 0xB2, CHR ''x''] 0]
   \<and> \<not> starts_with_decimal_digit (ev_name (enum_value0 [CHR 0xB2, CHR ''x''] 0))"
  by (simp add: EnumType_init_def enum_init_def enabled_values_def ex_enum_superscript_def
      type_data0_def enum_value0_def is_enabled_def isdigit_def starts_with_decimal_digit_def
      isdecimal_def)

text \<open>
  C6, amended. An enum or bitmask that has been constructed has \<open>requires_prefix\<close> true
  exactly when one of its values has a name whose first character \<open>str.isdigit\<close> accepts:
  a decimal digit \<open>0\<close>..\<open>9\<close> or another digit character such as the superscript two. In
  particular it is true when a name starts with a decimal digit. Every value carries the
  flag of the enum, and the values are the enabled values of the raw data, in order.
\<close>

theorem requires_prefix_iff_digit:
  assumes "EnumType_init name data enabled_tags = Inr t
           \<or> BitmaskType_init name data enabled_tags = Inr t"
  shows "\<exists>rp. requires_prefix t = Some rp
           \<and> (rp \<longleftrightarrow> (\<exists>v\<in>set (enum_values t). starts_with_digit (ev_name (ev_data v))))
           \<and> ((\<exists>v\<in>set (enum_values t). starts_with_decimal_digit (ev_name (ev_data v)))
                \<longrightarrow> rp)
           \<and> (\<forall>v\<in>set (enum_values t). ev_requires_prefix v = rp)
           \<and> map ev_data (enum_values t) = enabled_values data enabled_tags"
proof -
  let ?vals = "enabled_values data enabled_tags"
  from assms obtain cls where cls: "cls = EnumType \<or> cls = BitmaskType"
    and init: "enum_init cls name data enabled_tags = Inr t"
    by (auto simp: EnumType_init_def BitmaskType_init_def)
  from enum_init_Inr [OF init] obtain rp where
    rp: "any_first_isdigit ?vals = Inr rp" and
    body: "t_body t = cls rp (map (\<lambda>v. \<lparr>ev_data = v, ev_requires_prefix = rp\<rparr>) ?vals)"
    by blast
  from cls body have flag: "requires_prefix t = Some rp"
    and vals: "enum_values t = map (\<lambda>v. \<lparr>ev_data = v, ev_requires_prefix = rp\<rparr>) ?vals"
    by (auto simp: requires_prefix_def enum_values_def)
  have data: "map ev_data (enum_values t) = ?vals"
    unfolding vals by (simp add: comp_def)
  have "rp = (\<exists>v\<in>set ?vals. starts_with_digit (ev_name v))"
    by (rule any_first_isdigit_Inr [OF rp])
  also have "\<dots> = (\<exists>v\<in>set (enum_values t). starts_with_digit (ev_name (ev_data v)))"
    unfolding vals by auto
  finally have iff: "rp \<longleftrightarrow> (\<exists>v\<in>set (enum_values t). starts_with_digit (ev_name (ev_data v)))" .
  have dec: "(\<exists>v\<in>set (enum_values t). starts_with_decimal_digit (ev_name (ev_data v)))
                \<longrightarrow> rp"
    using iff starts_with_decimal_digit_imp by blast
  have same: "\<forall>v\<in>set (enum_values t). ev_requires_prefix v = rp"
    unfolding vals by auto
  from flag iff dec same data show ?thesis by blast
qed

theorem requires_prefix_iff_digit_witness:
  "EnumType_init ''E'' ex_enum_data None = Inr ex_enum
   \<and> requires_prefix ex_enum = Some True
   \<and> map ev_data (enum_values ex_enum) = enabled_values ex_enum_data None"
proof -
  have init: "EnumType_init ''E'' ex_enum_data None = Inr ex_enum"
    by (simp add: EnumType_init_def enum_init_def enabled_values_def ex_enum_data_def
        ex_enum_def type_data0_def enum_value0_def is_enabled_def isdigit_def)
  have flag: "requires_prefix ex_enum = Some True"
    by (simp add: requires_prefix_def ex_enum_def)
  from requires_prefix_iff_digit [of "''E''" ex_enum_data None ex_enum] init flag
  show ?thesis by auto
qed

text \<open>
  C10, as stated, fails: the enum with the values \<open>1x\<close> and the empty name is constructed,
  since \<open>any\<close> stops at \<open>1x\<close> and never reads the first character of the empty name.
\<close>

theorem enum_empty_name_counterexample:
  "ev_name (enabled_values ex_enum_empty_name None ! 1) = []
   \<and> EnumType_init ''E'' ex_enum_empty_name None =
       Inr \<lparr>t_name = ''E'', t_data = ex_enum_empty_name,
            t_body = EnumType True
              [\<lparr>ev_data = enum_value0 ''1x'' 0, ev_requires_prefix = True\<rparr>,
               \<lparr>ev_data = enum_value0 '''' 1, ev_requires_prefix = True\<rparr>]\<rparr>"
  by (simp add: EnumType_init_def enum_init_def enabled_values_def ex_enum_empty_name_def
      type_data0_def enum_value0_def is_enabled_def isdigit_def)

text \<open>
  C10, amended. Constructing an enum or bitmask returns a type when every enabled value has
  a non-empty name. It raises only \<open>IndexError\<close>, and it does so exactly when some enabled
  value has the empty name and no enabled value before it has a name whose first character
  \<open>str.isdigit\<close> accepts.
\<close>

theorem enum_init_total_or_index_error:
  "((\<forall>v\<in>set (enabled_values data enabled_tags). ev_name v \<noteq> [])
      \<longrightarrow> (\<exists>t. enum_init cls name data enabled_tags = Inr t))
   \<and> (\<forall>e. enum_init cls name data enabled_tags = Inl e \<longrightarrow> e = IndexError)
   \<and> (enum_init cls name data enabled_tags = Inl IndexError \<longleftrightarrow>
        (\<exists>pre v post. enabled_values data enabled_tags = pre @ v # post \<and> ev_name v = []
           \<and> (\<forall>u\<in>set pre. \<not> starts_with_digit (ev_name u))))"
proof -
  let ?vals = "enabled_values data enabled_tags"
  have err: "enum_init cls name data enabled_tags = Inl e \<longleftrightarrow> any_first_isdigit ?vals = Inl e"
    for e
    by (auto simp: enum_init_def Let_def split: sum.splits)
  have total: "(\<forall>v\<in>set ?vals. ev_name v \<noteq> []) \<longrightarrow> (\<exists>t. enum_init cls name data enabled_tags = Inr t)"
  proof
    assume "\<forall>v\<in>set ?vals. ev_name v \<noteq> []"
    from any_first_isdigit_total [OF this] obtain b where "any_first_isdigit ?vals = Inr b" ..
    then show "\<exists>t. enum_init cls name data enabled_tags = Inr t"
      by (simp add: enum_init_def Let_def)
  qed
  have only: "\<forall>e. enum_init cls name data enabled_tags = Inl e \<longrightarrow> e = IndexError"
    using err any_first_isdigit_error by blast
  show ?thesis
    using total only err [of IndexError] any_first_isdigit_fails [of ?vals] by blast
qed

theorem enum_init_total_or_index_error_witness:
  "(\<exists>t. enum_init EnumType ''E'' ex_enum_data None = Inr t)
   \<and> enum_init EnumType ''E'' ex_enum_only_empty None = Inl IndexError"
proof -
  have names: "\<forall>v\<in>set (enabled_values ex_enum_data None). ev_name v \<noteq> []"
    by (simp add: enabled_values_def ex_enum_data_def type_data0_def enum_value0_def
        is_enabled_def)
  have split: "enabled_values ex_enum_only_empty None = [] @ enum_value0 '''' 0 # []"
    by (simp add: enabled_values_def ex_enum_only_empty_def type_data0_def is_enabled_def)
  have "\<exists>pre v post. enabled_values ex_enum_only_empty None = pre @ v # post \<and> ev_name v = []
           \<and> (\<forall>u\<in>set pre. \<not> starts_with_digit (ev_name u))"
    by (rule exI[of _ "[]"], rule exI[of _ "enum_value0 '''' 0"], rule exI[of _ "[]"])
       (simp add: split enum_value0_def)
  with names enum_init_total_or_index_error [of ex_enum_data None EnumType "''E''"]
    enum_init_total_or_index_error [of ex_enum_only_empty None EnumType "''E''"]
  show ?thesis by blast
qed

text \<open>
  The superscript two stops \<open>any\<close> as a decimal digit does: the empty name after it is
  never read.
\<close>

lemma enum_superscript_then_empty_built:
  "EnumType_init ''E'' ex_enum_superscript_empty None =
     Inr \<lparr>t_name = ''E'', t_data = ex_enum_superscript_empty,
          t_body = EnumType True
            [\<lparr>ev_data = enum_value0 [CHR 0xB2, CHR ''x''] 0, ev_requires_prefix = True\<rparr>,
             \<lparr>ev_data = enum_value0 '''' 1, ev_requires_prefix = True\<rparr>]\<rparr>"
  by (simp add: EnumType_init_def enum_init_def enabled_values_def ex_enum_superscript_empty_def
      type_data0_def enum_value0_def is_enabled_def isdigit_def)

subsection \<open>The examples are what the constructors build\<close>

lemma ex_list_types_built: "Model_init ex_list_schema None = Inr ex_list_types"
  by (simp add: Model_init_def ex_list_schema_def ex_list_types_def startswith_def is_enabled_def
      type_data0_def construct_def NativeType_init_def StructureType_init_def
      container_members_def is_member_enabled_def ex_count_data_def ex_items_data_def
      member_data0_def Member_init_def pair_lengths_def members_by_name_def
      members_by_length_def dict_of_def m_name_def m_length_def enumerate_eq_zip
      link_pass_def link_def Member_link_def resolve_def ex_count_def ex_items_def
      ex_uint32_def)

subsection \<open>Conversion strategies\<close>

text \<open>
  C1. A member that is not the length of a sibling, is not named \<open>userdata\<close>, whose type is
  not \<open>char\<close>, whose annotation is \<open>const*\<close> and which has a length name, gets one of the
  five array conversions, chosen by the element type alone (\<open>void\<close>, then the category);
  the \<open>optional\<close> flag of the member has no influence.
\<close>

theorem conversion_array_rule:
  assumes "length_of m = None"
    and "m_name m \<noteq> ''userdata''"
    and "type_ref types m = Inr t"
    and "t_name t \<noteq> ''char''"
    and "m_annotation m = Some ''const*''"
    and "m_length m = Some l" and "l \<noteq> []"
  shows "conversion nu types sibs m =
           Inr (if t_name t = ''void'' then buffer_conversion
                else if category t = ''enum'' then enum_array_conversion
                else if category t = ''structure'' then struct_array_conversion
                else if category t = ''object'' then object_array_conversion
                else implicit_array_conversion)
         \<and> conversion nu types sibs (m\<lparr>m_data := (m_data m)\<lparr>md_optional := b\<rparr>\<rparr>) =
             conversion nu types sibs m"
proof -
  let ?m' = "m\<lparr>m_data := (m_data m)\<lparr>md_optional := b\<rparr>\<rparr>"
  have sib: "sibling sibs (length_of m) = None" "sibling sibs (length_of ?m') = None"
    using assms(1) by (simp_all add: sibling_def)
  have same: "m_name ?m' = m_name m" "type_ref types ?m' = type_ref types m"
    "m_annotation ?m' = m_annotation m" "m_length ?m' = m_length m"
    by (simp_all add: m_name_def type_ref_def m_annotation_def m_length_def)
  have first: "conversion nu types sibs m =
           Inr (if t_name t = ''void'' then buffer_conversion
                else if category t = ''enum'' then enum_array_conversion
                else if category t = ''structure'' then struct_array_conversion
                else if category t = ''object'' then object_array_conversion
                else implicit_array_conversion)"
    using assms sib(1) by (simp add: conversion_def)
  have "conversion nu types sibs ?m' =
           Inr (if t_name t = ''void'' then buffer_conversion
                else if category t = ''enum'' then enum_array_conversion
                else if category t = ''structure'' then struct_array_conversion
                else if category t = ''object'' then object_array_conversion
                else implicit_array_conversion)"
    using assms sib(2) same by (simp add: conversion_def)
  with first show ?thesis by simp
qed

theorem conversion_array_rule_witness:
  "length_of ex_items = None \<and> m_name ex_items \<noteq> ''userdata''
   \<and> type_ref ex_list_types ex_items = Inr ex_uint32 \<and> t_name ex_uint32 \<noteq> ''char''
   \<and> m_annotation ex_items = Some ''const*'' \<and> m_length ex_items = Some ''count''
   \<and> m_optional ex_items
   \<and> conversion id_nameutils ex_list_types [ex_count, ex_items] ex_items =
       Inr implicit_array_conversion"
proof -
  have h: "length_of ex_items = None" "m_name ex_items \<noteq> ''userdata''"
    "type_ref ex_list_types ex_items = Inr ex_uint32" "t_name ex_uint32 \<noteq> ''char''"
    "m_annotation ex_items = Some ''const*''" "m_length ex_items = Some ''count''"
    "''count'' \<noteq> []" "m_optional ex_items"
    by (simp_all add: ex_items_def ex_items_data_def member_data0_def m_name_def type_ref_def
        ex_list_types_def ex_uint32_def m_annotation_def m_length_def m_optional_def)
  have c: "t_name ex_uint32 \<noteq> ''void''" "category ex_uint32 = ''native''"
    by (simp_all add: ex_uint32_def category_def type_data0_def)
  from conversion_array_rule [OF h(1-7), of id_nameutils "[ex_count, ex_items]" True] h c
  show ?thesis by simp
qed

subsection \<open>Type signatures\<close>

lemma swift_type_finish_optional:
  "m_optional m \<Longrightarrow> swift_type_finish t m s \<noteq> [] \<and> last (swift_type_finish t m s) = CHR ''?''"
  by (simp add: swift_type_finish_def Let_def)

text \<open>
  C4, as stated, fails: an optional member that is a mutable pointer to \<open>void\<close> takes the
  last branch of \<open>swift_type\<close>, which returns \<open>c_type\<close> as it is; the signature ends with
  \<open>!\<close>.
\<close>

theorem swift_type_optional_counterexample:
  "m_optional ex_out
   \<and> swift_type id_nameutils [(''void'', ex_void)] ex_out = Inr ''UnsafeMutableRawPointer!''
   \<and> last ''UnsafeMutableRawPointer!'' \<noteq> CHR ''?''"
  by (simp add: m_optional_def ex_out_def member_data0_def swift_type_def type_ref_def
      ex_void_def m_annotation_def c_type_def)

text \<open>
  C4, amended. The signature of an optional member ends with \<open>?\<close> when it comes from the
  string branch, the array or buffer branch, or the branch of the element's own type name.
  In the remaining branch the signature is \<open>c_type\<close>, unchanged.
\<close>

theorem swift_type_optional_marker:
  assumes "m_optional m"
    and "type_ref types m = Inr t"
    and "swift_type nu types m = Inr s"
  shows "(\<not> returns_c_type t m \<longrightarrow> s \<noteq> [] \<and> last s = CHR ''?'')
         \<and> (returns_c_type t m \<longrightarrow> c_type nu types m = Inr s)"
proof (cases "returns_c_type t m")
  case True
  then have "swift_type nu types m = c_type nu types m"
    using assms(2) by (auto simp: swift_type_def returns_c_type_def)
  with assms(3) True show ?thesis by simp
next
  case False
  then obtain s0 where "s = swift_type_finish t m s0"
    using assms(2,3)
    by (auto simp: swift_type_def returns_c_type_def split: if_splits sum.splits)
  with swift_type_finish_optional [OF assms(1)] False show ?thesis by simp
qed

theorem swift_type_optional_marker_witness:
  "m_optional ex_label \<and> type_ref [(''char'', ex_char)] ex_label = Inr ex_char
   \<and> swift_type id_nameutils [(''char'', ex_char)] ex_label = Inr ''String?''
   \<and> \<not> returns_c_type ex_char ex_label
   \<and> m_optional ex_out \<and> type_ref [(''void'', ex_void)] ex_out = Inr ex_void
   \<and> returns_c_type ex_void ex_out
   \<and> c_type id_nameutils [(''void'', ex_void)] ex_out = Inr ''UnsafeMutableRawPointer!''"
proof -
  have a: "m_optional ex_label" "type_ref [(''char'', ex_char)] ex_label = Inr ex_char"
    "swift_type id_nameutils [(''char'', ex_char)] ex_label = Inr ''String?''"
    "\<not> returns_c_type ex_char ex_label"
    by (simp_all add: m_optional_def ex_label_def member_data0_def swift_type_def type_ref_def
        ex_char_def m_annotation_def swift_type_finish_def category_def type_data0_def
        returns_c_type_def)
  have b: "m_optional ex_out" "type_ref [(''void'', ex_void)] ex_out = Inr ex_void"
    "swift_type id_nameutils [(''void'', ex_void)] ex_out = Inr ''UnsafeMutableRawPointer!''"
    "returns_c_type ex_void ex_out"
    by (simp_all add: m_optional_def ex_out_def member_data0_def swift_type_def type_ref_def
        ex_void_def m_annotation_def c_type_def returns_c_type_def m_length_def category_def
        type_data0_def)
  from swift_type_optional_marker [OF a(1-3)] swift_type_optional_marker [OF b(1-3)] a b
  show ?thesis by simp
qed

subsection \<open>Callbacks\<close>

text \<open>
  C5, as stated, fails: a function pointer with two arguments named \<open>userdata\<close> is a
  callback, although the number of such arguments is two.
\<close>

theorem is_callback_counterexample:
  "is_callback (args_of (FunctionPointerType_init ''cb'' ex_two_userdata))
   \<and> count_list (map m_name (args_of (FunctionPointerType_init ''cb'' ex_two_userdata)))
        ''userdata'' = 2"
  by (simp add: FunctionPointerType_init_def args_of_def ex_two_userdata_def type_data0_def
      container_members_def is_member_enabled_def member_data0_def Member_init_def
      pair_lengths_def is_callback_def m_name_def)

text \<open>
  C5, amended. \<open>is_callback\<close> is true exactly when at least one argument is named
  \<open>userdata\<close>; when exactly one is, it is true.
\<close>

theorem is_callback_iff_some_userdata:
  "(is_callback args \<longleftrightarrow> 1 \<le> count_list (map m_name args) ''userdata'')
   \<and> (count_list (map m_name args) ''userdata'' = 1 \<longrightarrow> is_callback args)"
proof -
  have names: "(\<exists>a\<in>set args. m_name a = u) \<longleftrightarrow> u \<in> set (map m_name args)" for u
    by auto
  have "is_callback args \<longleftrightarrow> ''userdata'' \<in> set (map m_name args)"
    unfolding is_callback_def list_ex_iff by (rule names)
  also have "\<dots> \<longleftrightarrow> 1 \<le> count_list (map m_name args) ''userdata''"
    using count_list_0_iff [of "map m_name args" "''userdata''"]
    by (cases "count_list (map m_name args) ''userdata''") auto
  finally show ?thesis by simp
qed

theorem is_callback_iff_some_userdata_witness:
  "count_list (map m_name [ex_out, ex_label]) ''userdata'' = 0
   \<and> \<not> is_callback [ex_out, ex_label]
   \<and> count_list (map m_name [ex_out, ex_label\<lparr>m_data := member_data0 ''userdata'' ''void *''\<rparr>])
        ''userdata'' = 1
   \<and> is_callback [ex_out, ex_label\<lparr>m_data := member_data0 ''userdata'' ''void *''\<rparr>]"
proof -
  have c: "count_list (map m_name [ex_out, ex_label]) ''userdata'' = 0"
    "count_list (map m_name [ex_out, ex_label\<lparr>m_data := member_data0 ''userdata'' ''void *''\<rparr>])
        ''userdata'' = 1"
    by (simp_all add: m_name_def ex_out_def ex_label_def member_data0_def)
  from is_callback_iff_some_userdata [of "[ex_out, ex_label]"]
    is_callback_iff_some_userdata
      [of "[ex_out, ex_label\<lparr>m_data := member_data0 ''userdata'' ''void *''\<rparr>]"] c
  show ?thesis by simp
qed

subsection \<open>The length pairing\<close>

lemma foldl_upd_map_of:
  "foldl (\<lambda>d (k, v). d(k \<mapsto> v)) m kvs = m ++ map_of (rev kvs)"
proof (induction kvs arbitrary: m)
  case Nil
  show ?case by simp
next
  case (Cons kv kvs)
  obtain k v where kv: "kv = (k, v)" by (cases kv)
  have "foldl (\<lambda>d (k, v). d(k \<mapsto> v)) m (kv # kvs) = foldl (\<lambda>d (k, v). d(k \<mapsto> v)) (m(k \<mapsto> v)) kvs"
    by (simp add: kv)
  also have "\<dots> = m(k \<mapsto> v) ++ map_of (rev kvs)"
    by (rule Cons.IH)
  also have "\<dots> = m ++ map_of (rev (kv # kvs))"
    by (rule ext) (simp add: kv map_add_def split: option.splits)
  finally show ?case .
qed

lemma dict_of_map_of: "dict_of kvs = map_of (rev kvs)"
  by (simp add: dict_of_def foldl_upd_map_of)


lemma key_index_snoc:
  "map_of (rev (key_index keyf (ms @ [x]))) k =
     (if keyf x = Some k then Some (length ms) else map_of (rev (key_index keyf ms)) k)"
  by (cases "keyf x") (simp_all add: key_index_def enumerate_append_eq)

lemma key_index_Some:
  "map_of (rev (key_index keyf ms)) k = Some j \<Longrightarrow>
     j < length ms \<and> keyf (ms ! j) = Some k
     \<and> (\<forall>j'. j < j' \<and> j' < length ms \<longrightarrow> keyf (ms ! j') \<noteq> Some k)"
proof (induction ms rule: rev_induct)
  case Nil
  then show ?case by (simp add: key_index_def)
next
  case (snoc x ms)
  show ?case
  proof (cases "keyf x = Some k")
    case True
    with snoc.prems have "j = length ms" by (simp add: key_index_snoc)
    with True show ?thesis by auto
  next
    case False
    with snoc.prems have "map_of (rev (key_index keyf ms)) k = Some j"
      by (simp add: key_index_snoc)
    from snoc.IH [OF this] have j: "j < length ms" and kj: "keyf (ms ! j) = Some k"
      and later: "\<And>j'. j < j' \<Longrightarrow> j' < length ms \<Longrightarrow> keyf (ms ! j') \<noteq> Some k"
      by blast+
    have "keyf ((ms @ [x]) ! j') \<noteq> Some k" if "j < j'" "j' < length (ms @ [x])" for j'
    proof (cases "j' < length ms")
      case True
      with later [OF that(1)] show ?thesis by (simp add: nth_append)
    next
      case False
      with that(2) have "j' = length ms" by simp
      with \<open>keyf x \<noteq> Some k\<close> show ?thesis by simp
    qed
    with j kj show ?thesis by (simp add: nth_append)
  qed
qed

lemma key_index_last:
  "j < length ms \<Longrightarrow> keyf (ms ! j) = Some k \<Longrightarrow>
   (\<And>j'. j < j' \<Longrightarrow> j' < length ms \<Longrightarrow> keyf (ms ! j') \<noteq> Some k) \<Longrightarrow>
   map_of (rev (key_index keyf ms)) k = Some j"
proof (induction ms rule: rev_induct)
  case Nil
  then show ?case by simp
next
  case (snoc x ms)
  show ?case
  proof (cases "j = length ms")
    case True
    with snoc.prems(2) show ?thesis by (simp add: key_index_snoc)
  next
    case False
    with snoc.prems(1) have j: "j < length ms" by simp
    with snoc.prems(2) have kj: "keyf (ms ! j) = Some k" by (simp add: nth_append)
    have x: "keyf x \<noteq> Some k"
      using snoc.prems(3) [of "length ms"] j by simp
    have "keyf (ms ! j') \<noteq> Some k" if "j < j'" "j' < length ms" for j'
      using snoc.prems(3) [of j'] that by (simp add: nth_append)
    from snoc.IH [OF j kj this] x show ?thesis by (simp add: key_index_snoc)
  qed
qed

lemma members_by_name_key_index:
  "members_by_name ms = map_of (rev (key_index (\<lambda>m. Some (m_name m)) ms))"
proof -
  have "map (\<lambda>(i, m). (m_name m, i)) xs =
        concat (map (\<lambda>(i, m). case Some (m_name m) of None \<Rightarrow> [] | Some k \<Rightarrow> [(k, i)]) xs)"
    for xs :: "(nat \<times> Member) list"
    by (induction xs) auto
  then show ?thesis
    by (simp add: members_by_name_def dict_of_map_of key_index_def)
qed


lemma length_key_Some: "length_key m = Some k \<longleftrightarrow> m_length m = Some k \<and> k \<noteq> []"
  by (auto simp: length_key_def split: option.splits)

lemma members_by_length_key_index:
  "members_by_length ms = map_of (rev (key_index length_key ms))"
proof -
  have "(\<lambda>(i, m). case m_length m of None \<Rightarrow> [] | Some l \<Rightarrow> if l \<noteq> [] then [(l, i)] else []) =
        (\<lambda>(i, m). case length_key m of None \<Rightarrow> [] | Some k \<Rightarrow> [(k, i::nat)])"
    by (auto simp: fun_eq_iff length_key_def split: option.splits)
  then show ?thesis
    by (simp add: members_by_length_def dict_of_map_of key_index_def)
qed

lemma pair_lengths_nth:
  "i < length ms \<Longrightarrow>
   length_member (pair_lengths ms ! i) =
     (case m_length (ms ! i) of None \<Rightarrow> None | Some l \<Rightarrow> members_by_name ms l)
   \<and> length_of (pair_lengths ms ! i) = members_by_length ms (m_name (ms ! i))
   \<and> m_data (pair_lengths ms ! i) = m_data (ms ! i)"
  by (simp add: pair_lengths_def)

lemma length_pair_lengths: "length (pair_lengths ms) = length ms"
  by (simp add: pair_lengths_def)

text \<open>The positions stored by the pairing are positions of the container.\<close>

lemma pair_lengths_in_range:
  assumes "i < length ms"
  shows "(\<forall>j. length_member (pair_lengths ms ! i) = Some j \<longrightarrow> j < length ms)
         \<and> (\<forall>j. length_of (pair_lengths ms ! i) = Some j \<longrightarrow> j < length ms)"
proof -
  have "j < length ms" if "length_member (pair_lengths ms ! i) = Some j" for j
  proof (cases "m_length (ms ! i)")
    case None
    with that assms show ?thesis by (simp add: pair_lengths_nth)
  next
    case (Some l)
    with that assms have "map_of (rev (key_index (\<lambda>m. Some (m_name m)) ms)) l = Some j"
      by (simp add: pair_lengths_nth members_by_name_key_index)
    from key_index_Some [OF this] show ?thesis by simp
  qed
  moreover have "j < length ms" if "length_of (pair_lengths ms ! i) = Some j" for j
  proof -
    from that assms have "map_of (rev (key_index length_key ms)) (m_name (ms ! i)) = Some j"
      by (simp add: pair_lengths_nth members_by_length_key_index)
    from key_index_Some [OF this] show ?thesis by simp
  qed
  ultimately show ?thesis by blast
qed

text \<open>
  C2, as stated, fails: \<open>a\<close> and \<open>b\<close> both have the length \<open>n\<close>; the dictionary keeps the
  last of them, so \<open>length_of\<close> of \<open>n\<close> is \<open>b\<close> and not \<open>a\<close>.
\<close>

theorem pairing_shared_length_counterexample:
  "m_length (container_members ex_shared_length ! 0)
     = Some (m_name (container_members ex_shared_length ! 2))
   \<and> length_of (container_members ex_shared_length ! 2) = Some 1
   \<and> length_of (container_members ex_shared_length ! 2) \<noteq> Some 0"
  by (simp add: container_members_def ex_shared_length_def is_member_enabled_def member_data0_def
      Member_init_def pair_lengths_def members_by_name_def members_by_length_def dict_of_def
      m_name_def m_length_def enumerate_eq_zip)

text \<open>
  C2, amended. Let \<open>ms\<close> be the members of a constructed container, \<open>A\<close> the member at
  position \<open>i\<close> and \<open>B\<close> the member at position \<open>j\<close>. If \<open>A.length\<close> is a non-empty string
  equal to \<open>B.name\<close>, no member after \<open>A\<close> has the same length and no member after \<open>B\<close> has
  the same name, then \<open>B.length_of\<close> is \<open>A\<close> and \<open>A.length_member\<close> is \<open>B\<close>. And whenever
  \<open>length_of\<close> of the member \<open>L\<close> at position \<open>j\<close> is the member \<open>A\<close> at position \<open>i\<close>, then
  \<open>A.length\<close> is the name of \<open>L\<close>, and \<open>A.length_member\<close> is \<open>L\<close> provided no member after
  \<open>L\<close> has the name of \<open>L\<close>.
\<close>

theorem pairing_mutual_last_wins:
  assumes "ms = container_members ds"
  shows "(i < length ms \<and> j < length ms
            \<and> m_length (ms ! i) = Some l \<and> l \<noteq> [] \<and> m_name (ms ! j) = l
            \<and> (\<forall>i'. i < i' \<and> i' < length ms \<longrightarrow> m_length (ms ! i') \<noteq> Some l)
            \<and> (\<forall>j'. j < j' \<and> j' < length ms \<longrightarrow> m_name (ms ! j') \<noteq> l)
          \<longrightarrow> length_of (ms ! j) = Some i \<and> length_member (ms ! i) = Some j)
         \<and> (j < length ms \<and> length_of (ms ! j) = Some i
          \<longrightarrow> i < length ms \<and> m_length (ms ! i) = Some (m_name (ms ! j))
              \<and> ((\<forall>j'. j < j' \<and> j' < length ms \<longrightarrow> m_name (ms ! j') \<noteq> m_name (ms ! j))
                   \<longrightarrow> length_member (ms ! i) = Some j))"
proof -
  define ms0 where "ms0 = map Member_init (filter is_member_enabled ds)"
  have ms: "ms = pair_lengths ms0"
    using assms by (simp add: container_members_def ms0_def)
  have len: "length ms = length ms0"
    by (simp add: ms length_pair_lengths)
  have nm: "m_name (ms ! k) = m_name (ms0 ! k)" and ln: "m_length (ms ! k) = m_length (ms0 ! k)"
    if "k < length ms0" for k
    using that by (simp_all add: ms pair_lengths_nth m_name_def m_length_def)
  have by_name: "members_by_name ms0 k = Some j"
    if "j < length ms0" "m_name (ms0 ! j) = k"
      "\<forall>j'. j < j' \<and> j' < length ms0 \<longrightarrow> m_name (ms0 ! j') \<noteq> k" for k j
    unfolding members_by_name_key_index using that by (intro key_index_last) auto
  have first: "length_of (ms ! j) = Some i \<and> length_member (ms ! i) = Some j"
    if h: "i < length ms" "j < length ms" "m_length (ms ! i) = Some l" "l \<noteq> []"
      "m_name (ms ! j) = l"
      "\<forall>i'. i < i' \<and> i' < length ms \<longrightarrow> m_length (ms ! i') \<noteq> Some l"
      "\<forall>j'. j < j' \<and> j' < length ms \<longrightarrow> m_name (ms ! j') \<noteq> l"
  proof -
    from h(1,2) len have i: "i < length ms0" and j: "j < length ms0" by simp_all
    have li: "length_key (ms0 ! i) = Some l"
      using h(3,4) ln [OF i] by (simp add: length_key_Some)
    have later: "length_key (ms0 ! i') \<noteq> Some l" if "i < i'" "i' < length ms0" for i'
      using h(6) [rule_format, of i'] that ln [OF that(2)] len by (simp add: length_key_Some)
    have "members_by_length ms0 l = Some i"
      unfolding members_by_length_key_index
      by (rule key_index_last [where keyf = length_key, OF i li]) (rule later)
    then have a: "length_of (ms ! j) = Some i"
      using j h(5) nm [OF j] by (simp add: ms pair_lengths_nth)
    have "\<forall>j'. j < j' \<and> j' < length ms0 \<longrightarrow> m_name (ms0 ! j') \<noteq> l"
      using h(7) nm len by simp
    then have "members_by_name ms0 l = Some j"
      using j h(5) nm [OF j] by (intro by_name) simp_all
    moreover have "m_length (ms0 ! i) = Some l"
      using h(3) ln [OF i] by simp
    ultimately have "length_member (ms ! i) = Some j"
      using i by (simp add: ms pair_lengths_nth)
    with a show ?thesis by simp
  qed
  have second: "i < length ms \<and> m_length (ms ! i) = Some (m_name (ms ! j))
              \<and> ((\<forall>j'. j < j' \<and> j' < length ms \<longrightarrow> m_name (ms ! j') \<noteq> m_name (ms ! j))
                   \<longrightarrow> length_member (ms ! i) = Some j)"
    if h: "j < length ms" "length_of (ms ! j) = Some i"
  proof -
    from h(1) len have j: "j < length ms0" by simp
    from h(2) j have "map_of (rev (key_index length_key ms0)) (m_name (ms0 ! j)) = Some i"
      by (simp add: ms pair_lengths_nth members_by_length_key_index)
    from key_index_Some [OF this] have i: "i < length ms0"
      and li: "length_key (ms0 ! i) = Some (m_name (ms0 ! j))" by simp_all
    from li have l: "m_length (ms0 ! i) = Some (m_name (ms0 ! j))"
      by (simp add: length_key_Some)
    have "length_member (ms ! i) = Some j"
      if "\<forall>j'. j < j' \<and> j' < length ms \<longrightarrow> m_name (ms ! j') \<noteq> m_name (ms ! j)"
    proof -
      from that have "\<forall>j'. j < j' \<and> j' < length ms0 \<longrightarrow> m_name (ms0 ! j') \<noteq> m_name (ms0 ! j)"
        using nm len j by simp
      then have "members_by_name ms0 (m_name (ms0 ! j)) = Some j"
        using j by (intro by_name) simp_all
      then show ?thesis using i l by (simp add: ms pair_lengths_nth)
    qed
    with i l len nm [OF j] ln [OF i] show ?thesis by simp
  qed
  from first second show ?thesis by blast
qed

theorem pairing_mutual_last_wins_witness:
  "container_members [ex_count_data, ex_items_data] = [ex_count\<lparr>m_type := None\<rparr>, ex_items\<lparr>m_type := None\<rparr>]
   \<and> m_length (ex_items\<lparr>m_type := None\<rparr>) = Some (m_name (ex_count\<lparr>m_type := None\<rparr>))
   \<and> length_of (ex_count\<lparr>m_type := None\<rparr>) = Some 1
   \<and> length_member (ex_items\<lparr>m_type := None\<rparr>) = Some 0"
proof -
  let ?ms = "[ex_count\<lparr>m_type := None\<rparr>, ex_items\<lparr>m_type := None\<rparr>]"
  have ms: "container_members [ex_count_data, ex_items_data] = ?ms"
    by (simp add: container_members_def is_member_enabled_def ex_count_data_def ex_items_data_def
        member_data0_def Member_init_def pair_lengths_def members_by_name_def
        members_by_length_def dict_of_def m_name_def m_length_def enumerate_eq_zip
        ex_count_def ex_items_def)
  have one: "j' = 1" if "0 < j'" "j' < 2" for j' :: nat
    using that by arith
  have h: "(1::nat) < length ?ms" "(0::nat) < length ?ms"
    "m_length (?ms ! 1) = Some ''count''" "''count'' \<noteq> []" "m_name (?ms ! 0) = ''count''"
    by (simp_all add: m_length_def m_name_def ex_items_def ex_items_data_def ex_count_def
        ex_count_data_def member_data0_def)
  have la: "\<forall>i'. 1 < i' \<and> i' < length ?ms \<longrightarrow> m_length (?ms ! i') \<noteq> Some ''count''"
    by auto
  have lb: "\<forall>j'. 0 < j' \<and> j' < length ?ms \<longrightarrow> m_name (?ms ! j') \<noteq> ''count''"
    using one by (auto simp: m_name_def ex_items_def ex_items_data_def member_data0_def)
  from pairing_mutual_last_wins [OF ms [symmetric], of 1 0 "''count''"] h la lb
  have "length_of (?ms ! 0) = Some 1 \<and> length_member (?ms ! 1) = Some 0"
    by blast
  with ms h show ?thesis by (simp add: m_name_def ex_count_def ex_count_data_def member_data0_def)
qed

subsection \<open>The link pass\<close>

lemma first_missing_append:
  "first_missing types (xs @ ys) =
     (case first_missing types xs of None \<Rightarrow> first_missing types ys | Some k \<Rightarrow> Some k)"
  by (induction xs) (simp_all add: first_missing_def)

lemma first_missing_None:
  "first_missing types refs = None \<longleftrightarrow> (\<forall>r\<in>set refs. r \<in> fst ` set types)"
  by (auto simp: first_missing_def find_None_iff map_of_eq_None_iff)

lemma first_missing_Some:
  "first_missing types refs = Some k \<Longrightarrow> k \<in> set refs \<and> k \<notin> fst ` set types"
  by (auto simp: first_missing_def find_Some_iff map_of_eq_None_iff)

lemma outcome_seq:
  "(case outcome types r1 v1 of
      Inl e \<Rightarrow> Inl e
    | Inr a \<Rightarrow> (case outcome types r2 v2 of Inl e \<Rightarrow> Inl e | Inr b \<Rightarrow> Inr (f a b)))
   = outcome types (r1 @ r2) (f v1 v2)"
  by (cases "first_missing types r1"; cases "first_missing types r2")
     (simp_all add: outcome_def first_missing_append)

lemma outcome_map:
  "(case outcome types r v of Inl e \<Rightarrow> Inl e | Inr a \<Rightarrow> Inr (f a)) = outcome types r (f v)"
  by (cases "first_missing types r") (simp_all add: outcome_def)

lemma resolve_outcome: "resolve types k = outcome types [k] k"
  by (simp add: resolve_def outcome_def first_missing_def split: option.splits)

lemma Member_link_outcome:
  "Member_link types m = outcome types [md_type (m_data m)] (linked_member m)"
proof -
  have "Member_link types m =
      (case outcome types [md_type (m_data m)] (md_type (m_data m)) of
         Inl e \<Rightarrow> Inl e | Inr r \<Rightarrow> Inr (m\<lparr>m_type := Some r\<rparr>))"
    by (simp add: Member_link_def resolve_outcome cong: sum.case_cong)
  also have "\<dots> = outcome types [md_type (m_data m)] (m\<lparr>m_type := Some (md_type (m_data m))\<rparr>)"
    by (rule outcome_map)
  finally show ?thesis by (simp add: linked_member_def)
qed

lemma link_members_outcome:
  "link_members types ms = outcome types (member_refs ms) (map linked_member ms)"
proof (induction ms)
  case Nil
  show ?case by (simp add: outcome_def first_missing_def member_refs_def)
next
  case (Cons m ms)
  have "link_members types (m # ms) =
      (case outcome types [md_type (m_data m)] (linked_member m) of
         Inl e \<Rightarrow> Inl e
       | Inr m' \<Rightarrow> (case outcome types (member_refs ms) (map linked_member ms) of
                      Inl e \<Rightarrow> Inl e | Inr ms' \<Rightarrow> Inr (m' # ms')))"
    by (simp add: Member_link_outcome Cons.IH cong: sum.case_cong)
  also have "\<dots> = outcome types ([md_type (m_data m)] @ member_refs ms)
                      (linked_member m # map linked_member ms)"
    by (rule outcome_seq)
  finally show ?case by (simp add: member_refs_def)
qed

lemma link_return_outcome:
  "link_return types returns rt = outcome types (return_refs returns) (linked_return returns rt)"
proof (cases returns)
  case None
  then show ?thesis
    by (simp add: link_return_def return_refs_def linked_return_def outcome_def first_missing_def)
next
  case (Some r)
  show ?thesis
  proof (cases "r \<noteq> [] \<and> r \<noteq> ''void''")
    case True
    have "link_return types returns rt =
        (case outcome types [r] r of Inl e \<Rightarrow> Inl e | Inr k \<Rightarrow> Inr (Some k))"
      using Some True by (simp add: link_return_def resolve_outcome cong: sum.case_cong)
    also have "\<dots> = outcome types [r] (Some r)"
      by (rule outcome_map)
    finally show ?thesis using Some True by (simp add: return_refs_def linked_return_def)
  next
    case False
    then show ?thesis using Some
      by (auto simp: link_return_def return_refs_def linked_return_def outcome_def first_missing_def)
  qed
qed

lemma MethodType_link_outcome:
  "MethodType_link types f =
     outcome types (return_refs (fd_returns (meth_data f)) @ member_refs (meth_args f))
       (linked_method f)"
proof -
  have "MethodType_link types f =
      (case outcome types (return_refs (fd_returns (meth_data f)))
              (linked_return (fd_returns (meth_data f)) (meth_return_type f)) of
         Inl e \<Rightarrow> Inl e
       | Inr rt \<Rightarrow> (case outcome types (member_refs (meth_args f)) (map linked_member (meth_args f)) of
                      Inl e \<Rightarrow> Inl e
                    | Inr args \<Rightarrow> Inr (f\<lparr>meth_return_type := rt, meth_args := args\<rparr>)))"
    by (simp add: MethodType_link_def link_return_outcome link_members_outcome cong: sum.case_cong)
  also have "\<dots> = outcome types (return_refs (fd_returns (meth_data f)) @ member_refs (meth_args f))
       (f\<lparr>meth_return_type := linked_return (fd_returns (meth_data f)) (meth_return_type f),
          meth_args := map linked_member (meth_args f)\<rparr>)"
    by (rule outcome_seq)
  finally show ?thesis by (simp add: linked_method_def)
qed

lemma link_methods_outcome:
  "link_methods types fs =
     outcome types (concat (map (\<lambda>f. return_refs (fd_returns (meth_data f)) @ member_refs (meth_args f)) fs))
       (map linked_method fs)"
proof (induction fs)
  case Nil
  show ?case by (simp add: outcome_def first_missing_def)
next
  case (Cons f fs)
  let ?refs = "\<lambda>f. return_refs (fd_returns (meth_data f)) @ member_refs (meth_args f)"
  have "link_methods types (f # fs) =
      (case outcome types (?refs f) (linked_method f) of
         Inl e \<Rightarrow> Inl e
       | Inr f' \<Rightarrow> (case outcome types (concat (map ?refs fs)) (map linked_method fs) of
                      Inl e \<Rightarrow> Inl e | Inr fs' \<Rightarrow> Inr (f' # fs')))"
    by (simp add: MethodType_link_outcome Cons.IH cong: sum.case_cong)
  also have "\<dots> = outcome types (?refs f @ concat (map ?refs fs))
                      (linked_method f # map linked_method fs)"
    by (rule outcome_seq)
  finally show ?case by simp
qed

lemma link_outcome: "link types t = outcome types (node_refs t) (linked t)"
proof (cases "t_body t")
  case NativeType
  then show ?thesis by (simp add: link_def node_refs_def linked_def outcome_def first_missing_def)
next
  case (EnumType rp vs)
  then show ?thesis by (simp add: link_def node_refs_def linked_def outcome_def first_missing_def)
next
  case (BitmaskType rp vs)
  then show ?thesis by (simp add: link_def node_refs_def linked_def outcome_def first_missing_def)
next
  case (StructureType ms)
  have "link types t =
      (case outcome types (member_refs ms) (map linked_member ms) of
         Inl e \<Rightarrow> Inl e | Inr ms' \<Rightarrow> Inr (t\<lparr>t_body := StructureType ms'\<rparr>))"
    using StructureType by (simp add: link_def link_members_outcome cong: sum.case_cong)
  also have "\<dots> = outcome types (member_refs ms) (t\<lparr>t_body := StructureType (map linked_member ms)\<rparr>)"
    by (rule outcome_map)
  finally show ?thesis using StructureType by (simp add: node_refs_def linked_def)
next
  case (FunctionPointerType rt args)
  have "link types t =
      (case outcome types (return_refs (td_returns (t_data t))) (linked_return (td_returns (t_data t)) rt) of
         Inl e \<Rightarrow> Inl e
       | Inr rt' \<Rightarrow> (case outcome types (member_refs args) (map linked_member args) of
                      Inl e \<Rightarrow> Inl e
                    | Inr args' \<Rightarrow> Inr (t\<lparr>t_body := FunctionPointerType rt' args'\<rparr>)))"
    using FunctionPointerType by (simp add: link_def link_return_outcome link_members_outcome cong: sum.case_cong)
  also have "\<dots> = outcome types (return_refs (td_returns (t_data t)) @ member_refs args)
       (t\<lparr>t_body := FunctionPointerType (linked_return (td_returns (t_data t)) rt)
                      (map linked_member args)\<rparr>)"
    by (rule outcome_seq)
  finally show ?thesis using FunctionPointerType by (simp add: node_refs_def linked_def)
next
  case (FunctionType rt args)
  have "link types t =
      (case outcome types (return_refs (td_returns (t_data t))) (linked_return (td_returns (t_data t)) rt) of
         Inl e \<Rightarrow> Inl e
       | Inr rt' \<Rightarrow> (case outcome types (member_refs args) (map linked_member args) of
                      Inl e \<Rightarrow> Inl e
                    | Inr args' \<Rightarrow> Inr (t\<lparr>t_body := FunctionType rt' args'\<rparr>)))"
    using FunctionType by (simp add: link_def link_return_outcome link_members_outcome cong: sum.case_cong)
  also have "\<dots> = outcome types (return_refs (td_returns (t_data t)) @ member_refs args)
       (t\<lparr>t_body := FunctionType (linked_return (td_returns (t_data t)) rt)
                      (map linked_member args)\<rparr>)"
    by (rule outcome_seq)
  finally show ?thesis using FunctionType by (simp add: node_refs_def linked_def)
next
  case (ObjectType fs)
  let ?refs = "\<lambda>f. return_refs (fd_returns (meth_data f)) @ member_refs (meth_args f)"
  have "link types t =
      (case outcome types (concat (map ?refs fs)) (map linked_method fs) of
         Inl e \<Rightarrow> Inl e | Inr fs' \<Rightarrow> Inr (t\<lparr>t_body := ObjectType fs'\<rparr>))"
    using ObjectType by (simp add: link_def link_methods_outcome cong: sum.case_cong)
  also have "\<dots> = outcome types (concat (map ?refs fs)) (t\<lparr>t_body := ObjectType (map linked_method fs)\<rparr>)"
    by (rule outcome_map)
  finally show ?thesis using ObjectType by (simp add: node_refs_def linked_def)
next
  case (TypedefType r)
  have "link types t =
      (case outcome types [td_type (t_data t)] (td_type (t_data t)) of
         Inl e \<Rightarrow> Inl e | Inr k \<Rightarrow> Inr (t\<lparr>t_body := TypedefType (Some k)\<rparr>))"
    using TypedefType by (simp add: link_def resolve_outcome cong: sum.case_cong)
  also have "\<dots> = outcome types [td_type (t_data t)] (t\<lparr>t_body := TypedefType (Some (td_type (t_data t)))\<rparr>)"
    by (rule outcome_map)
  finally show ?thesis using TypedefType by (simp add: node_refs_def linked_def)
qed

lemma link_all_outcome:
  "link_all types ts =
     outcome types (stored_refs ts) (map (\<lambda>(k, t). (k, linked t)) ts)"
proof (induction ts)
  case Nil
  show ?case by (simp add: outcome_def first_missing_def stored_refs_def)
next
  case (Cons kt ts)
  obtain k t where kt: "kt = (k, t)" by (cases kt)
  have "link_all types (kt # ts) =
      (case outcome types (node_refs t) (linked t) of
         Inl e \<Rightarrow> Inl e
       | Inr t' \<Rightarrow> (case outcome types (stored_refs ts) (map (\<lambda>(k, t). (k, linked t)) ts) of
                      Inl e \<Rightarrow> Inl e | Inr ts' \<Rightarrow> Inr ((k, t') # ts')))"
    by (simp add: kt link_outcome Cons.IH cong: sum.case_cong)
  also have "\<dots> = outcome types (node_refs t @ stored_refs ts)
                      ((k, linked t) # map (\<lambda>(k, t). (k, linked t)) ts)"
    by (rule outcome_seq)
  finally show ?case by (simp add: kt stored_refs_def)
qed

lemma linked_member_idem: "linked_member (linked_member m) = linked_member m"
  by (simp add: linked_member_def)

lemma linked_return_idem: "linked_return r (linked_return r rt) = linked_return r rt"
  by (simp add: linked_return_def split: option.splits)

lemma linked_method_idem: "linked_method (linked_method f) = linked_method f"
  by (simp add: linked_method_def linked_return_idem linked_member_idem comp_def)

lemma linked_idem: "linked (linked t) = linked t"
  by (cases "t_body t")
     (simp_all add: linked_def linked_return_idem linked_member_idem linked_method_idem comp_def)

lemma member_refs_linked: "member_refs (map linked_member ms) = member_refs ms"
  by (simp add: member_refs_def linked_member_def comp_def)

lemma node_refs_linked: "node_refs (linked t) = node_refs t"
  by (cases "t_body t")
     (simp_all add: node_refs_def linked_def member_refs_linked linked_method_def comp_def)


lemma link_pass_outcome:
  "link_pass types = outcome types (stored_refs types) (map (\<lambda>(k, t). (k, linked t)) types)"
  by (simp add: link_pass_def link_all_outcome)

lemma stored_refs_linked:
  "stored_refs (map (\<lambda>(k, t). (k, linked t)) types) = stored_refs types"
  by (induction types) (auto simp: stored_refs_def node_refs_linked)

lemma keys_linked: "fst ` set (map (\<lambda>(k, t). (k, linked t)) types) = fst ` set types"
  by (induction types) auto

lemma ex_list_built_ok: "build_types ex_list_schema None [] = Inr ex_list_built"
  by (simp add: ex_list_schema_def ex_list_built_def startswith_def is_enabled_def
      type_data0_def construct_def NativeType_init_def StructureType_init_def
      container_members_def is_member_enabled_def ex_count_data_def ex_items_data_def
      member_data0_def Member_init_def pair_lengths_def members_by_name_def
      members_by_length_def dict_of_def m_name_def m_length_def enumerate_eq_zip
      ex_count_def ex_items_def ex_uint32_def)

lemma ex_bad_built_ok: "build_types ex_bad_schema None [] = Inr ex_bad_built"
  by (simp add: ex_bad_schema_def ex_bad_built_def startswith_def is_enabled_def
      type_data0_def construct_def NativeType_init_def StructureType_init_def
      container_members_def is_member_enabled_def member_data0_def Member_init_def
      pair_lengths_def members_by_name_def members_by_length_def dict_of_def m_name_def
      m_length_def enumerate_eq_zip ex_uint32_def)

text \<open>
  C7. The link pass returns a registry exactly when every stored type name is a key of the
  registry. When some stored name is not, the pass raises \<open>KeyError\<close> for a stored name
  that is no key, and returns no registry. When it returns, every node is the fully
  resolved node \<open>linked\<close>. \<open>Model.__init__\<close> ends with the link pass, so an exception of the
  pass is the outcome of the build.
\<close>

theorem link_pass_fails_iff_missing_reference:
  "((\<exists>types'. link_pass types = Inr types')
      \<longleftrightarrow> (\<forall>r\<in>set (stored_refs types). r \<in> fst ` set types))
   \<and> ((\<exists>r\<in>set (stored_refs types). r \<notin> fst ` set types)
      \<longrightarrow> (\<exists>k. k \<in> set (stored_refs types) \<and> k \<notin> fst ` set types
              \<and> link_pass types = Inl (KeyError k)))
   \<and> (\<forall>types'. link_pass types = Inr types'
      \<longrightarrow> types' = map (\<lambda>(k, t). (k, linked t)) types)
   \<and> (build_types data enabled_tags [] = Inr types
      \<longrightarrow> Model_init data enabled_tags = link_pass types)"
proof (cases "first_missing types (stored_refs types)")
  case None
  then have ok: "link_pass types = Inr (map (\<lambda>(k, t). (k, linked t)) types)"
    by (simp add: link_pass_outcome outcome_def)
  from None have "\<forall>r\<in>set (stored_refs types). r \<in> fst ` set types"
    by (simp add: first_missing_None)
  with ok show ?thesis by (auto simp: Model_init_def)
next
  case (Some k)
  then have err: "link_pass types = Inl (KeyError k)"
    by (simp add: link_pass_outcome outcome_def)
  from first_missing_Some [OF Some]
  have k: "k \<in> set (stored_refs types)" "k \<notin> fst ` set types" by simp_all
  have "\<not> (\<forall>r\<in>set (stored_refs types). r \<in> fst ` set types)"
    using k by blast
  moreover have "\<not> (\<exists>types'. link_pass types = Inr types')"
    using err by simp
  moreover have "\<exists>k. k \<in> set (stored_refs types) \<and> k \<notin> fst ` set types
              \<and> link_pass types = Inl (KeyError k)"
    using k err by blast
  moreover have "\<forall>types'. link_pass types = Inr types'
      \<longrightarrow> types' = map (\<lambda>(k, t). (k, linked t)) types"
    using err by simp
  moreover have "build_types data enabled_tags [] = Inr types
      \<longrightarrow> Model_init data enabled_tags = link_pass types"
    by (simp add: Model_init_def)
  ultimately show ?thesis by blast
qed

theorem link_pass_fails_iff_missing_reference_witness:
  "Model_init ex_list_schema None = Inr ex_list_types
   \<and> Model_init ex_bad_schema None = Inl (KeyError ''missing'')"
proof -
  have refs: "stored_refs ex_list_built = [''uint32_t'', ''uint32_t'']"
    "fst ` set ex_list_built = {''uint32_t'', ''list''}"
    by (simp_all add: stored_refs_def node_refs_def member_refs_def ex_list_built_def
        ex_uint32_def ex_count_def ex_items_def ex_count_data_def ex_items_data_def
        member_data0_def)
  have good: "\<forall>r\<in>set (stored_refs ex_list_built). r \<in> fst ` set ex_list_built"
    by (simp add: refs)
  have res: "map (\<lambda>(k, t). (k, linked t)) ex_list_built = ex_list_types"
    by (simp add: ex_list_built_def ex_list_types_def linked_def linked_member_def
        ex_uint32_def ex_count_def ex_items_def ex_count_data_def ex_items_data_def
        member_data0_def)
  have brefs: "stored_refs ex_bad_built = [''uint32_t'', ''missing'']"
    "fst ` set ex_bad_built = {''uint32_t'', ''s''}"
    by (simp_all add: stored_refs_def node_refs_def member_refs_def ex_bad_built_def
        ex_uint32_def Member_init_def member_data0_def)
  have bad: "\<exists>r\<in>set (stored_refs ex_bad_built). r \<notin> fst ` set ex_bad_built"
    by (simp add: brefs)
  from link_pass_fails_iff_missing_reference [of ex_list_built ex_list_schema None]
    good res ex_list_built_ok
  have a: "Model_init ex_list_schema None = Inr ex_list_types" by auto
  from link_pass_fails_iff_missing_reference [of ex_bad_built ex_bad_schema None]
    bad ex_bad_built_ok
  obtain k where k: "k \<in> set (stored_refs ex_bad_built)" "k \<notin> fst ` set ex_bad_built"
    "Model_init ex_bad_schema None = Inl (KeyError k)" by auto
  from k(1,2) have "k = ''missing''" by (simp add: brefs)
  with k(3) a show ?thesis by simp
qed

text \<open>
  C8. A registry that the link pass has returned, from any registry or at the end of
  \<open>Model.__init__\<close>, is returned unchanged by a second link pass.
\<close>

theorem link_pass_idempotent:
  assumes "link_pass types = Inr types' \<or> Model_init data enabled_tags = Inr types'"
  shows "link_pass types' = Inr types'"
proof -
  from assms obtain types0 where first: "link_pass types0 = Inr types'"
    by (auto simp: Model_init_def split: sum.splits)
  let ?res = "map (\<lambda>(k, t). (k, linked t)) types0"
  from first have none: "first_missing types0 (stored_refs types0) = None"
    and res: "types' = ?res"
    by (auto simp: link_pass_outcome outcome_def split: option.splits)
  from none have "\<forall>r\<in>set (stored_refs types0). r \<in> fst ` set types0"
    by (simp only: first_missing_None)
  then have "\<forall>r\<in>set (stored_refs ?res). r \<in> fst ` set ?res"
    by (simp only: stored_refs_linked keys_linked)
  then have "first_missing ?res (stored_refs ?res) = None"
    by (simp only: first_missing_None)
  then have "link_pass ?res = Inr (map (\<lambda>(k, t). (k, linked t)) ?res)"
    by (simp add: link_pass_outcome outcome_def)
  also have "map (\<lambda>(k, t). (k, linked t)) ?res = ?res"
    by (induction types0) (auto simp: linked_idem)
  finally show ?thesis by (simp add: res)
qed

theorem link_pass_idempotent_witness:
  "Model_init ex_list_schema None = Inr ex_list_types
   \<and> link_pass ex_list_types = Inr ex_list_types"
proof -
  have first: "Model_init ex_list_schema None = Inr ex_list_types"
    by (rule ex_list_types_built)
  from link_pass_idempotent [of ex_list_built ex_list_types ex_list_schema None] first
  show ?thesis by simp
qed

subsection \<open>The depth bound\<close>

text \<open>
  A value that \<open>get_swift_value\<close>, \<open>default_swift_value\<close> or
  \<open>has_default_swift_initializer\<close> returns within some depth is returned within every
  larger depth: the bound decides only whether \<open>RecursionError\<close> is raised.
\<close>

lemma struct_init_args_mono:
  assumes gsv: "\<And>t v s. get_swift_value n nu types t v = Inr s
                   \<Longrightarrow> get_swift_value (Suc n) nu types t v = Inr s"
  shows "struct_init_args n nu types xs = Inr ss \<Longrightarrow> struct_init_args (Suc n) nu types xs = Inr ss"
proof (induction xs arbitrary: ss)
  case Nil
  then show ?case by simp
next
  case (Cons x xs)
  obtain member val where x: "x = (member, val)" by (cases x)
  from Cons.prems obtain t s ss' where
    t: "type_ref types member = Inr t" and
    s: "get_swift_value n nu types t (JStr (strip val)) = Inr s" and
    r: "struct_init_args n nu types xs = Inr ss'" and
    ss: "ss = (m_swift_name nu member @ '': '' @ s) # ss'"
    unfolding x struct_init_args.simps by (auto split: sum.splits)
  from gsv [OF s] Cons.IH [OF r] t ss show ?case
    unfolding x struct_init_args.simps by simp
qed

lemma get_swift_value_mono:
  "get_swift_value n nu types t v = Inr s \<Longrightarrow> get_swift_value (Suc n) nu types t v = Inr s"
proof (induction n arbitrary: t v s)
  case 0
  then show ?case
    by (subst get_swift_value.simps, subst (asm) get_swift_value.simps)
       (auto split: type_body.splits jvalue.splits if_splits sum.splits)
next
  case (Suc n)
  show ?case
  proof (cases "t_body t")
    case (StructureType ms)
    show ?thesis
    proof (cases v)
      case (JStr str)
      from Suc.prems obtain args where
        a: "struct_init_args n nu types (zip ms (split_char CHR '','' (strip_chars ''{}'' str))) = Inr args"
        and s: "s = ''.init('' @ join '', '' args @ '')''"
        by (subst (asm) get_swift_value.simps) (auto simp: StructureType JStr split: sum.splits)
      from struct_init_args_mono [OF Suc.IH a] s show ?thesis
        by (subst get_swift_value.simps) (simp add: StructureType JStr)
    next
      case (JInt i)
      with Suc.prems StructureType show ?thesis
        by (subst get_swift_value.simps, subst (asm) get_swift_value.simps) simp
    next
      case (JBool b)
      with Suc.prems StructureType show ?thesis
        by (subst get_swift_value.simps, subst (asm) get_swift_value.simps) simp
    qed
  qed (use Suc.prems in \<open>subst get_swift_value.simps, subst (asm) get_swift_value.simps, simp\<close>)+
qed


lemmas dsv_simps_off = default_swift_value.simps has_default_swift_initializer.simps

lemma all_default_mono:
  assumes dsv: "\<And>m d. default_swift_value n nu types sibs m = Inr d
                   \<Longrightarrow> default_swift_value (Suc n) nu types sibs m = Inr d"
  shows "all_default_swift_values n nu types sibs rest = Inr b
         \<Longrightarrow> all_default_swift_values (Suc n) nu types sibs rest = Inr b"
proof (induction rest)
  case Nil
  then show ?case by simp
next
  case (Cons m rest)
  from Cons.prems obtain d where d: "default_swift_value n nu types sibs m = Inr d"
    by (cases "default_swift_value n nu types sibs m") (simp_all del: dsv_simps_off)
  show ?case
  proof (cases "truthy_str d")
    case True
    with Cons.prems d have "all_default_swift_values n nu types sibs rest = Inr b"
      by (simp del: dsv_simps_off)
    from Cons.IH [OF this] dsv [OF d] True show ?thesis
      by (simp del: dsv_simps_off)
  next
    case False
    with Cons.prems d have "b = False" by (simp del: dsv_simps_off)
    with dsv [OF d] False show ?thesis by (simp del: dsv_simps_off)
  qed
qed

lemma default_swift_value_mono:
  "default_swift_value n nu types sibs m = Inr d
   \<Longrightarrow> default_swift_value (Suc n) nu types sibs m = Inr d"
proof (induction n arbitrary: sibs m d)
  case 0
  show ?case
    using "0.prems" get_swift_value_mono [of 0 nu types]
    by (subst default_swift_value.simps, subst (asm) default_swift_value.simps)
       (auto simp del: dsv_simps_off get_swift_value.simps
             split: if_splits option.splits sum.splits type_body.splits)
next
  case (Suc k)
  have hd: "has_default_swift_initializer (Suc k) nu types ms = Inr b"
    if "has_default_swift_initializer k nu types ms = Inr b" for ms b
    using that all_default_mono [of k nu types ms "swift_members ms" b] Suc.IH
    by (simp del: default_swift_value.simps)
  show ?case
    using Suc.prems get_swift_value_mono [of "Suc k" nu types] hd
    by (subst default_swift_value.simps, subst (asm) default_swift_value.simps)
       (auto simp del: dsv_simps_off get_swift_value.simps
             split: if_splits option.splits sum.splits type_body.splits)
qed

lemma has_default_swift_initializer_mono:
  "has_default_swift_initializer n nu types ms = Inr b
   \<Longrightarrow> has_default_swift_initializer (Suc n) nu types ms = Inr b"
  using all_default_mono [of n nu types ms "swift_members ms" b] default_swift_value_mono
  by (simp del: default_swift_value.simps)

lemma has_default_swift_initializer_mono_le:
  "k \<le> j \<Longrightarrow> has_default_swift_initializer k nu types ms = Inr b
   \<Longrightarrow> has_default_swift_initializer j nu types ms = Inr b"
proof (induction j rule: dec_induct)
  case base
  then show ?case .
next
  case (step i)
  from has_default_swift_initializer_mono [OF step.IH [OF step.prems]] show ?case .
qed

subsection \<open>Default values\<close>

lemma ex_zlist_types_built: "Model_init ex_zlist_schema None = Inr ex_zlist_types"
  by (simp add: Model_init_def ex_zlist_schema_def ex_zlist_types_def startswith_def is_enabled_def
      type_data0_def construct_def NativeType_init_def StructureType_init_def
      container_members_def is_member_enabled_def ex_zcount_data_def ex_zitems_data_def
      member_data0_def Member_init_def pair_lengths_def members_by_name_def
      members_by_length_def dict_of_def m_name_def m_length_def enumerate_eq_zip
      link_pass_def link_def Member_link_def resolve_def ex_zcount_def ex_zitems_def
      ex_uint32_def ex_x_def ex_x_data_def)

lemma all_default_True:
  "all_default_swift_values n nu types sibs rest = Inr True \<longleftrightarrow>
     (\<forall>m\<in>set rest. \<exists>s. default_swift_value n nu types sibs m = Inr (Some s) \<and> s \<noteq> [])"
proof (induction rest)
  case Nil
  show ?case by simp
next
  case (Cons m rest)
  show ?case
  proof (cases "default_swift_value n nu types sibs m")
    case (Inl e)
    then show ?thesis by simp
  next
    case (Inr d)
    then show ?thesis using Cons.IH by (cases d) auto
  qed
qed

lemma all_default_False:
  "\<forall>m\<in>set rest. \<exists>d. default_swift_value n nu types sibs m = Inr d \<Longrightarrow>
   \<exists>m\<in>set rest. default_swift_value n nu types sibs m = Inr None \<Longrightarrow>
   all_default_swift_values n nu types sibs rest = Inr False"
proof (induction rest)
  case Nil
  then show ?case by simp
next
  case (Cons m rest)
  from Cons.prems(1) obtain d where d: "default_swift_value n nu types sibs m = Inr d" by auto
  show ?case
  proof (cases "truthy_str d")
    case False
    with d show ?thesis by simp
  next
    case True
    then have "d \<noteq> None" by (cases d) auto
    with d Cons.prems(2) have "\<exists>m\<in>set rest. default_swift_value n nu types sibs m = Inr None"
      by auto
    moreover from Cons.prems(1)
    have "\<forall>m\<in>set rest. \<exists>d. default_swift_value n nu types sibs m = Inr d"
      by simp
    ultimately have "all_default_swift_values n nu types sibs rest = Inr False"
      by (rule Cons.IH [rotated])
    with d True show ?thesis by simp
  qed
qed

text \<open>
  C3, as stated, fails: in the structure \<open>list\<close> the only member that is not an array is
  \<open>count\<close>, and its derived default is absent (its literal \<open>0\<close> is falsy); yet the structure
  has a default initializer, because \<open>count\<close> is the length of \<open>items\<close> and is skipped,
  and the array \<open>items\<close> has the default \<open>[]\<close>.
\<close>

theorem has_default_non_array_counterexample:
  "has_default_swift_initializer 1 id_nameutils ex_zlist_types [ex_zcount, ex_zitems] = Inr True
   \<and> m_annotation ex_zcount = None \<and> m_length ex_zcount = None
   \<and> length_member ex_zcount = None
   \<and> default_swift_value 1 id_nameutils ex_zlist_types [ex_zcount, ex_zitems] ex_zcount
       = Inr None"
  by (simp add: swift_members_def ex_zcount_def ex_zitems_def ex_zcount_data_def ex_zitems_data_def
      member_data0_def m_optional_def m_default_def sibling_def m_annotation_def m_length_def
      type_ref_def ex_zlist_types_def ex_uint32_def)

text \<open>
  C3, amended. \<open>has_default_swift_initializer\<close> is true exactly when every member that is
  not the length of a sibling (\<open>swift_members\<close>) has a derived default that is neither
  absent nor the empty string. If the derived default of such a member is absent the flag
  is not true, and it is false when no derived default raises.
\<close>

theorem has_default_swift_initializer_iff:
  "(has_default_swift_initializer n nu types ms = Inr True \<longleftrightarrow>
      (\<forall>m\<in>set (swift_members ms).
         \<exists>s. default_swift_value n nu types ms m = Inr (Some s) \<and> s \<noteq> []))
   \<and> ((\<exists>m\<in>set (swift_members ms). default_swift_value n nu types ms m = Inr None)
        \<longrightarrow> has_default_swift_initializer n nu types ms \<noteq> Inr True)
   \<and> ((\<forall>m\<in>set (swift_members ms). \<exists>d. default_swift_value n nu types ms m = Inr d)
        \<and> (\<exists>m\<in>set (swift_members ms). default_swift_value n nu types ms m = Inr None)
        \<longrightarrow> has_default_swift_initializer n nu types ms = Inr False)"
proof -
  have flag: "has_default_swift_initializer n nu types ms =
               all_default_swift_values n nu types ms (swift_members ms)"
    by simp
  have iff: "has_default_swift_initializer n nu types ms = Inr True \<longleftrightarrow>
      (\<forall>m\<in>set (swift_members ms).
         \<exists>s. default_swift_value n nu types ms m = Inr (Some s) \<and> s \<noteq> [])"
    unfolding flag by (rule all_default_True)
  have absent: "has_default_swift_initializer n nu types ms \<noteq> Inr True"
    if "\<exists>m\<in>set (swift_members ms). default_swift_value n nu types ms m = Inr None"
  proof
    assume "has_default_swift_initializer n nu types ms = Inr True"
    with iff have "\<forall>m\<in>set (swift_members ms).
         \<exists>s. default_swift_value n nu types ms m = Inr (Some s) \<and> s \<noteq> []" by simp
    moreover from that obtain m where "m \<in> set (swift_members ms)"
      "default_swift_value n nu types ms m = Inr None" by blast
    ultimately show False by force
  qed
  have false: "has_default_swift_initializer n nu types ms = Inr False"
    if "\<forall>m\<in>set (swift_members ms). \<exists>d. default_swift_value n nu types ms m = Inr d"
      "\<exists>m\<in>set (swift_members ms). default_swift_value n nu types ms m = Inr None"
    unfolding flag using that by (rule all_default_False)
  from iff absent false show ?thesis by blast
qed

theorem has_default_swift_initializer_iff_witness:
  "swift_members [ex_zcount, ex_zitems] = [ex_zitems]
   \<and> default_swift_value 1 id_nameutils ex_zlist_types [ex_zcount, ex_zitems] ex_zitems
       = Inr (Some ''[]'')
   \<and> has_default_swift_initializer 1 id_nameutils ex_zlist_types [ex_zcount, ex_zitems] = Inr True
   \<and> swift_members [ex_plain] = [ex_plain]
   \<and> default_swift_value 1 id_nameutils ex_zlist_types [ex_plain] ex_plain = Inr None
   \<and> has_default_swift_initializer 1 id_nameutils ex_zlist_types [ex_plain] = Inr False"
proof -
  have sm: "swift_members [ex_zcount, ex_zitems] = [ex_zitems]"
    "swift_members [ex_plain] = [ex_plain]"
    by (simp_all add: swift_members_def ex_zcount_def ex_zitems_def ex_plain_def)
  have d1: "default_swift_value 1 id_nameutils ex_zlist_types [ex_zcount, ex_zitems] ex_zitems
       = Inr (Some ''[]'')"
    by (simp add: ex_zcount_def ex_zitems_def ex_zcount_data_def ex_zitems_data_def
      member_data0_def m_optional_def m_default_def sibling_def)
  have d2: "default_swift_value 1 id_nameutils ex_zlist_types [ex_plain] ex_plain = Inr None"
    by (simp add: ex_plain_def member_data0_def m_optional_def m_default_def sibling_def
      type_ref_def ex_zlist_types_def ex_uint32_def)
  from has_default_swift_initializer_iff
         [of 1 id_nameutils ex_zlist_types "[ex_zcount, ex_zitems]"] sm(1) d1
  have t: "has_default_swift_initializer 1 id_nameutils ex_zlist_types [ex_zcount, ex_zitems]
             = Inr True"
    by simp
  from has_default_swift_initializer_iff [of 1 id_nameutils ex_zlist_types "[ex_plain]"] sm(2) d2
  have f: "has_default_swift_initializer 1 id_nameutils ex_zlist_types [ex_plain] = Inr False"
    by simp
  from sm d1 d2 t f show ?thesis by simp
qed

text \<open>
  C9, as stated, fails: the member \<open>x\<close> is not optional, has the falsy default \<open>0\<close> and no
  length member, but its type is a structure with a default initializer, so its derived
  default is the call of that initializer.
\<close>

theorem falsy_default_counterexample:
  "\<not> m_optional ex_x \<and> m_default ex_x = Some (JInt 0) \<and> length_member ex_x = None
   \<and> default_swift_value 1 id_nameutils ex_zlist_types [ex_x] ex_x = Inr (Some ''empty()'')"
  by (simp add: swift_members_def ex_x_def ex_x_data_def member_data0_def m_optional_def
      m_default_def sibling_def m_annotation_def type_ref_def ex_zlist_types_def ex_uint32_def
      swift_name_def id_nameutils_def lower_def lower_char_def)

text \<open>
  C9, amended. For a member that is not optional, whose default literal is falsy and whose
  length member, if any, has no zero default, the literal is not rendered: the derived
  default is that of the same member without the \<open>default\<close> key. It is absent when the type
  of the member is no structure or the member has an annotation. For a member of a
  structure type without annotation it is the call \<open>Name()\<close> of the structure's initializer
  when the structure has a default initializer, it is absent when the structure has none,
  and an exception raised while the flag of the structure is computed is raised.
\<close>

theorem falsy_default_not_rendered:
  assumes "\<not> m_optional m"
    and "\<not> truthy (m_default m)"
    and "\<not> length_member_is_zero sibs m"
  shows "default_swift_value n nu types sibs m =
           default_swift_value n nu types sibs (m\<lparr>m_data := (m_data m)\<lparr>md_default := None\<rparr>\<rparr>)
         \<and> (\<not> is_structure_typed types m \<or> truthy_str (m_annotation m)
              \<longrightarrow> default_swift_value n nu types sibs m = Inr None)
         \<and> (\<forall>t ms k. type_ref types m = Inr t \<and> t_body t = StructureType ms
                \<and> \<not> truthy_str (m_annotation m) \<and> k < n
              \<longrightarrow> (has_default_swift_initializer k nu types ms = Inr True
                     \<longrightarrow> default_swift_value n nu types sibs m =
                           Inr (Some (pascal_case nu (lower (t_name t)) @ ''()'')))
                  \<and> (has_default_swift_initializer k nu types ms = Inr False
                     \<longrightarrow> default_swift_value n nu types sibs m = Inr None))
         \<and> (\<forall>t ms k e. type_ref types m = Inr t \<and> t_body t = StructureType ms
                \<and> \<not> truthy_str (m_annotation m) \<and> n = Suc k
                \<and> has_default_swift_initializer k nu types ms = Inl e
              \<longrightarrow> default_swift_value n nu types sibs m = Inl e)"
proof -
  let ?m' = "m\<lparr>m_data := (m_data m)\<lparr>md_default := None\<rparr>\<rparr>"
  let ?rest = "\<lambda>n m. (case type_ref types m of
                Inl e \<Rightarrow> Inr None
              | Inr t \<Rightarrow>
                  (case t_body t of
                     StructureType ms \<Rightarrow>
                       if truthy_str (m_annotation m) then Inr None
                       else
                         (case n of
                            0 \<Rightarrow> Inl RecursionError
                          | Suc k \<Rightarrow>
                              (case has_default_swift_initializer k nu types ms of
                                 Inl e \<Rightarrow> Inl e
                               | Inr b \<Rightarrow>
                                   if b then
                                     (case swift_name nu t of
                                        Inl e \<Rightarrow> Inl e
                                      | Inr sn \<Rightarrow> Inr (Some (sn @ ''()'')))
                                   else Inr None))
                   | _ \<Rightarrow> Inr None))"
  have same: "m_optional ?m' = m_optional m" "length_member ?m' = length_member m"
    "type_ref types ?m' = type_ref types m" "m_annotation ?m' = m_annotation m"
    "m_default ?m' = None"
    by (simp_all add: m_optional_def type_ref_def m_annotation_def m_default_def)
  have a: "default_swift_value n' nu types sibs m = ?rest n' m" for n'
    using assms by (subst default_swift_value.simps) (simp add: length_member_is_zero_def)
  have b: "default_swift_value n nu types sibs ?m' = ?rest n ?m'"
    using assms same
    by (subst default_swift_value.simps) (simp add: length_member_is_zero_def)
  have c: "?rest n ?m' = ?rest n m"
    by (simp only: same)
  have d: "?rest n m = Inr None" if "\<not> is_structure_typed types m \<or> truthy_str (m_annotation m)"
    using that
    by (auto simp: is_structure_typed_def split: sum.splits type_body.splits)
  have struct: "default_swift_value (Suc j) nu types sibs m =
      (case has_default_swift_initializer j nu types ms of
         Inl e \<Rightarrow> Inl e
       | Inr b \<Rightarrow> if b then Inr (Some (pascal_case nu (lower (t_name t)) @ ''()''))
                  else Inr None)"
    if "type_ref types m = Inr t" "t_body t = StructureType ms" "\<not> truthy_str (m_annotation m)"
    for j t ms
  proof -
    from that(2) have sn: "swift_name nu t = Inr (pascal_case nu (lower (t_name t)))"
      by (simp add: swift_name_def)
    show ?thesis
      unfolding a using that sn
      by (simp del: dsv_simps_off split: sum.splits)
  qed
  have flag: "default_swift_value n nu types sibs m =
      (if b then Inr (Some (pascal_case nu (lower (t_name t)) @ ''()'')) else Inr None)"
    if h: "type_ref types m = Inr t" "t_body t = StructureType ms"
      "\<not> truthy_str (m_annotation m)" "k < n"
      "has_default_swift_initializer k nu types ms = Inr b"
    for t ms k b
  proof -
    from h(4) obtain j where n: "n = Suc j" and kj: "k \<le> j"
      by (cases n) auto
    from has_default_swift_initializer_mono_le [OF kj h(5)]
    have "has_default_swift_initializer j nu types ms = Inr b" .
    with struct [OF h(1-3), of j] n show ?thesis
      by (simp del: dsv_simps_off)
  qed
  have err: "default_swift_value n nu types sibs m = Inl e"
    if h: "type_ref types m = Inr t" "t_body t = StructureType ms"
      "\<not> truthy_str (m_annotation m)" "n = Suc k"
      "has_default_swift_initializer k nu types ms = Inl e"
    for t ms k e
    using struct [OF h(1-3), of k] h(4,5) by (simp del: dsv_simps_off)
  have first: "default_swift_value n nu types sibs m =
           default_swift_value n nu types sibs ?m'"
    using a [of n] b c by (simp del: dsv_simps_off)
  have second: "\<not> is_structure_typed types m \<or> truthy_str (m_annotation m)
              \<longrightarrow> default_swift_value n nu types sibs m = Inr None"
    using a [of n] d by (simp del: dsv_simps_off)
  have third: "\<forall>t ms k. type_ref types m = Inr t \<and> t_body t = StructureType ms
                \<and> \<not> truthy_str (m_annotation m) \<and> k < n
              \<longrightarrow> (has_default_swift_initializer k nu types ms = Inr True
                     \<longrightarrow> default_swift_value n nu types sibs m =
                           Inr (Some (pascal_case nu (lower (t_name t)) @ ''()'')))
                  \<and> (has_default_swift_initializer k nu types ms = Inr False
                     \<longrightarrow> default_swift_value n nu types sibs m = Inr None)"
  proof (intro allI impI conjI)
    fix t ms k
    assume h: "type_ref types m = Inr t \<and> t_body t = StructureType ms
                \<and> \<not> truthy_str (m_annotation m) \<and> k < n"
    {
      assume "has_default_swift_initializer k nu types ms = Inr True"
      with flag [of t ms k True] h
      show "default_swift_value n nu types sibs m =
              Inr (Some (pascal_case nu (lower (t_name t)) @ ''()''))"
        by (simp del: dsv_simps_off)
    }
    {
      assume "has_default_swift_initializer k nu types ms = Inr False"
      with flag [of t ms k False] h
      show "default_swift_value n nu types sibs m = Inr None"
        by (simp del: dsv_simps_off)
    }
  qed
  have fourth: "\<forall>t ms k e. type_ref types m = Inr t \<and> t_body t = StructureType ms
                \<and> \<not> truthy_str (m_annotation m) \<and> n = Suc k
                \<and> has_default_swift_initializer k nu types ms = Inl e
              \<longrightarrow> default_swift_value n nu types sibs m = Inl e"
    using err by blast
  from first second third fourth show ?thesis by (intro conjI)
qed

theorem falsy_default_not_rendered_witness:
  "\<not> m_optional ex_zcount \<and> m_default ex_zcount = Some (JInt 0)
   \<and> \<not> truthy (m_default ex_zcount)
   \<and> \<not> length_member_is_zero [ex_zcount, ex_zitems] ex_zcount
   \<and> \<not> is_structure_typed ex_zlist_types ex_zcount
   \<and> default_swift_value 1 id_nameutils ex_zlist_types [ex_zcount, ex_zitems] ex_zcount
       = Inr None
   \<and> \<not> m_optional ex_x \<and> \<not> truthy (m_default ex_x) \<and> \<not> length_member_is_zero [ex_x] ex_x
   \<and> type_ref ex_zlist_types ex_x = Inr ex_empty \<and> t_body ex_empty = StructureType []
   \<and> \<not> truthy_str (m_annotation ex_x)
   \<and> has_default_swift_initializer 0 id_nameutils ex_zlist_types [] = Inr True
   \<and> default_swift_value 1 id_nameutils ex_zlist_types [ex_x] ex_x = Inr (Some ''empty()'')"
proof -
  have h: "\<not> m_optional ex_zcount" "\<not> truthy (m_default ex_zcount)"
    "\<not> length_member_is_zero [ex_zcount, ex_zitems] ex_zcount"
    "m_default ex_zcount = Some (JInt 0)"
    "\<not> is_structure_typed ex_zlist_types ex_zcount"
    by (simp_all add: ex_zcount_def ex_zcount_data_def member_data0_def m_optional_def
        m_default_def length_member_is_zero_def sibling_def is_structure_typed_def type_ref_def
        ex_zlist_types_def ex_uint32_def)
  from falsy_default_not_rendered [OF h(1-3), of 1 id_nameutils ex_zlist_types] h(5)
  have none: "default_swift_value 1 id_nameutils ex_zlist_types [ex_zcount, ex_zitems] ex_zcount
          = Inr None"
    by blast
  have g: "\<not> m_optional ex_x" "\<not> truthy (m_default ex_x)"
    "\<not> length_member_is_zero [ex_x] ex_x"
    "type_ref ex_zlist_types ex_x = Inr ex_empty" "t_body ex_empty = StructureType []"
    "\<not> truthy_str (m_annotation ex_x)"
    by (simp_all add: ex_x_def ex_x_data_def member_data0_def m_optional_def m_default_def
        length_member_is_zero_def sibling_def type_ref_def ex_zlist_types_def ex_empty_def
        m_annotation_def)
  have flag: "has_default_swift_initializer 0 id_nameutils ex_zlist_types [] = Inr True"
    by (simp add: swift_members_def)
  have nm: "pascal_case id_nameutils (lower (t_name ex_empty)) @ ''()'' = ''empty()''"
    by (simp add: id_nameutils_def lower_def lower_char_def ex_empty_def)
  have lt: "(0::nat) < 1" by simp
  from falsy_default_not_rendered [OF g(1-3), of 1 id_nameutils ex_zlist_types]
  have "type_ref ex_zlist_types ex_x = Inr ex_empty \<and> t_body ex_empty = StructureType []
          \<and> \<not> truthy_str (m_annotation ex_x) \<and> (0::nat) < 1
        \<longrightarrow> (has_default_swift_initializer 0 id_nameutils ex_zlist_types [] = Inr True
             \<longrightarrow> default_swift_value 1 id_nameutils ex_zlist_types [ex_x] ex_x =
                   Inr (Some (pascal_case id_nameutils (lower (t_name ex_empty)) @ ''()'')))"
    by blast
  with g(4-6) lt flag
  have "default_swift_value 1 id_nameutils ex_zlist_types [ex_x] ex_x =
          Inr (Some (pascal_case id_nameutils (lower (t_name ex_empty)) @ ''()''))"
    by blast
  then have some: "default_swift_value 1 id_nameutils ex_zlist_types [ex_x] ex_x
                     = Inr (Some ''empty()'')"
    by (simp only: nm)
  from h none g flag some show ?thesis by blast
qed

end
